theory Spec2Isabelle
  imports Main "HOL-Library.Word"
begin

unbundle bit_operations_syntax

section \<open>The WD2793 floppy disk controller\<close>

text \<open>
  A shallow embedding of the WD2793 controller (the file that includes \<open>WD2793.hh\<close>).
  Every member function becomes a function on a record of the member variables; the
  functions that can abort (an assertion, \<open>UNREACHABLE\<close>, an access outside the
  transfer buffer, a scheduler contract violation) return a sum whose left side is the
  abort.
\<close>

subsection \<open>Data\<close>

type_synonym byte = "8 word"

text \<open>
  Modelled from the spec: \<open>EmuTime\<close> and \<open>Clock\<close> are declared in headers that are not
  part of the sources. The spec describes a totally ordered clock with exact
  arithmetic; here an instant is a natural number of microseconds. \<open>DRQTimer\<close> counts
  in the same unit, and a clock of 1000 Hz counts milliseconds.
\<close>

type_synonym EmuTime = nat

definition ms :: "nat \<Rightarrow> EmuTime" where
  "ms n = 1000 * n"

datatype SyncPointType = SCHED_FSM | SCHED_IDX_IRQ

datatype FSMState =
    FSM_NONE
  | FSM_SEEK
  | FSM_TYPE2_WAIT_LOAD
  | FSM_TYPE2_LOADED
  | FSM_TYPE2_ROTATED
  | FSM_TYPE3_WAIT_LOAD
  | FSM_TYPE3_LOADED
  | FSM_IDX_IRQ

datatype MSXException = MSXException

datatype error =
    AssertionFailed
  | Unreachable
  | OutOfBounds
  | ContractViolation
  | OutOfFuel

definition bindE :: "error + 'a \<Rightarrow> ('a \<Rightarrow> error + 'b) \<Rightarrow> error + 'b" where
  "bindE m f = (case m of Inl e \<Rightarrow> Inl e | Inr x \<Rightarrow> f x)"

text \<open>Status register bits.\<close>

abbreviation BUSY :: byte where "BUSY \<equiv> 0x01"
abbreviation INDEX :: byte where "INDEX \<equiv> 0x02"
abbreviation S_DRQ :: byte where "S_DRQ \<equiv> 0x02"
abbreviation TRACK00 :: byte where "TRACK00 \<equiv> 0x04"
abbreviation LOST_DATA :: byte where "LOST_DATA \<equiv> 0x04"
abbreviation CRC_ERROR :: byte where "CRC_ERROR \<equiv> 0x08"
abbreviation SEEK_ERROR :: byte where "SEEK_ERROR \<equiv> 0x10"
abbreviation RECORD_NOT_FOUND :: byte where "RECORD_NOT_FOUND \<equiv> 0x10"
abbreviation HEAD_LOADED :: byte where "HEAD_LOADED \<equiv> 0x20"
abbreviation RECORD_TYPE :: byte where "RECORD_TYPE \<equiv> 0x20"
abbreviation WRITE_PROTECTED :: byte where "WRITE_PROTECTED \<equiv> 0x40"
abbreviation NOT_READY :: byte where "NOT_READY \<equiv> 0x80"

text \<open>Command register bits.\<close>

abbreviation STEP_SPEED :: byte where "STEP_SPEED \<equiv> 0x03"
abbreviation V_FLAG :: byte where "V_FLAG \<equiv> 0x04"
abbreviation E_FLAG :: byte where "E_FLAG \<equiv> 0x04"
abbreviation H_FLAG :: byte where "H_FLAG \<equiv> 0x08"
abbreviation T_FLAG :: byte where "T_FLAG \<equiv> 0x10"
abbreviation M_FLAG :: byte where "M_FLAG \<equiv> 0x10"
abbreviation N2R_IRQ :: byte where "N2R_IRQ \<equiv> 0x01"
abbreviation R2N_IRQ :: byte where "R2N_IRQ \<equiv> 0x02"
abbreviation IDX_IRQ :: byte where "IDX_IRQ \<equiv> 0x04"
abbreviation IMM_IRQ :: byte where "IMM_IRQ \<equiv> 0x08"

text \<open>
  Modelled from the spec: the \<open>DiskDrive\<close> backend is declared in \<open>DiskDrive.hh\<close>,
  which is not part of the sources. It is taken as a parameter: a table of the
  operations the spec lists for the backend media interface, over a drive state \<open>'d\<close>
  of the backend's own. An operation that throws \<open>MSXException\<close> returns \<open>Inl\<close> and
  leaves the drive and the controller's buffer as they were. \<open>drive_read\<close> returns the
  bytes the backend stores at the start of the buffer it is handed.
\<close>

record 'd DiskDrive =
  drive_isDiskInserted :: "'d \<Rightarrow> bool"
  drive_isWriteProtected :: "'d \<Rightarrow> bool"
  drive_isTrack00 :: "'d \<Rightarrow> bool"
  drive_headLoaded :: "EmuTime \<Rightarrow> 'd \<Rightarrow> bool"
  drive_setHeadLoaded :: "bool \<Rightarrow> EmuTime \<Rightarrow> 'd \<Rightarrow> 'd"
  drive_step :: "bool \<Rightarrow> EmuTime \<Rightarrow> 'd \<Rightarrow> 'd"
  drive_indexPulse :: "EmuTime \<Rightarrow> 'd \<Rightarrow> bool"
  drive_indexPulseCount :: "EmuTime \<Rightarrow> EmuTime \<Rightarrow> 'd \<Rightarrow> int"
  drive_getTimeTillIndexPulse :: "EmuTime \<Rightarrow> 'd \<Rightarrow> EmuTime"
  drive_getTimeTillSector :: "byte \<Rightarrow> EmuTime \<Rightarrow> 'd \<Rightarrow> EmuTime"
  drive_read :: "byte \<Rightarrow> 'd \<Rightarrow> MSXException + ('d \<times> byte list \<times> byte \<times> byte \<times> byte \<times> int)"
  drive_write :: "byte \<Rightarrow> byte list \<Rightarrow> 'd \<Rightarrow> MSXException + ('d \<times> byte \<times> byte \<times> byte \<times> int)"
  drive_writeTrackData :: "byte list \<Rightarrow> 'd \<Rightarrow> MSXException + 'd"

text \<open>
  The member variables of the controller, as \<open>serialize\<close> lists them. \<open>dataBuffer\<close>
  is a list whose length is the size of the array (\<open>Disk::RAWTRACK_SIZE\<close>);
  \<open>dataCurrent\<close> and \<open>dataAvailable\<close> are signed counters. \<open>drive\<close> is the state of
  the drive the controller refers to.

  Modelled from the spec: the \<open>Schedulable\<close> base class and the \<open>Scheduler\<close> are not
  part of the sources. \<open>syncPoints\<close> holds this controller's pending SyncPoints
  (fire time and tag), ordered by fire time, equal times in registration order.
\<close>

record 'd WD2793 =
  drive :: 'd
  commandStart :: EmuTime
  DRQTimer :: EmuTime
  fsmState :: FSMState
  statusReg :: byte
  commandReg :: byte
  sectorReg :: byte
  trackReg :: byte
  dataReg :: byte
  directionIn :: bool
  INTRQ :: bool
  immediateIRQ :: bool
  DRQ :: bool
  transferring :: bool
  formatting :: bool
  dataBuffer :: "byte list"
  dataCurrent :: int
  dataAvailable :: int
  syncPoints :: "(EmuTime \<times> SyncPointType) list"

subsection \<open>Scheduler\<close>

text \<open>
  Modelled from the spec: \<open>pendingSyncPoint\<close>, \<open>removeSyncPoint\<close> and \<open>setSyncPoint\<close>
  of the absent \<open>Schedulable\<close>. \<open>removeSyncPoint\<close> cancels a pending callback and is a
  no-op when none is pending; \<open>setSyncPoint\<close> fails with a contract violation when
  the tag already has a pending entry.
\<close>

definition pendingSyncPoint :: "SyncPointType \<Rightarrow> 'd WD2793 \<Rightarrow> bool" where
  "pendingSyncPoint tag s = (tag \<in> set (map snd (syncPoints s)))"

fun removeTag :: "SyncPointType \<Rightarrow> (EmuTime \<times> SyncPointType) list \<Rightarrow> (EmuTime \<times> SyncPointType) list" where
  "removeTag tag [] = []"
| "removeTag tag (p # ps) = (if snd p = tag then ps else p # removeTag tag ps)"

definition removeSyncPoint :: "SyncPointType \<Rightarrow> 'd WD2793 \<Rightarrow> 'd WD2793" where
  "removeSyncPoint tag s = s\<lparr>syncPoints := removeTag tag (syncPoints s)\<rparr>"

fun insertSyncPoint :: "EmuTime \<times> SyncPointType \<Rightarrow> (EmuTime \<times> SyncPointType) list \<Rightarrow> (EmuTime \<times> SyncPointType) list" where
  "insertSyncPoint p [] = [p]"
| "insertSyncPoint p (q # qs) = (if fst p < fst q then p # q # qs else q # insertSyncPoint p qs)"

definition setSyncPoint :: "EmuTime \<Rightarrow> SyncPointType \<Rightarrow> 'd WD2793 \<Rightarrow> error + 'd WD2793" where
  "setSyncPoint time tag s =
     (if pendingSyncPoint tag s then Inl ContractViolation
      else Inr (s\<lparr>syncPoints := insertSyncPoint (time, tag) (syncPoints s)\<rparr>))"

subsection \<open>Signals\<close>

definition setIRQ :: "'d WD2793 \<Rightarrow> 'd WD2793" where
  "setIRQ s = s\<lparr>INTRQ := True\<rparr>"

definition resetIRQ :: "'d WD2793 \<Rightarrow> 'd WD2793" where
  "resetIRQ s = s\<lparr>INTRQ := False\<rparr>"

text \<open>
  Modelled from the spec: \<open>DRQTimer.advance(time)\<close> restarts the lazy timer at \<open>time\<close>,
  and \<open>DRQTimer.getTicksTill(time)\<close> is the number of ticks from its start to \<open>time\<close>.
\<close>

definition setDRQ :: "bool \<Rightarrow> EmuTime \<Rightarrow> 'd WD2793 \<Rightarrow> 'd WD2793" where
  "setDRQ drq time s = s\<lparr>DRQ := drq, DRQTimer := time\<rparr>"

definition getTicksTill :: "EmuTime \<Rightarrow> 'd WD2793 \<Rightarrow> int" where
  "getTicksTill time s = int time - int (DRQTimer s)"

text \<open>
  \<open>getDTRQ\<close> stores the tick count in a local \<open>int ticks\<close> before it compares it
  with 15 in the sector branch: the count is narrowed to 32 bits, two's complement. The
  write-track branch compares the count itself.
\<close>

definition toInt32 :: "int \<Rightarrow> int" where
  "toInt32 n = sint (word_of_int n :: 32 word)"

definition endCmd :: "'d WD2793 \<Rightarrow> 'd WD2793" where
  "endCmd s = (let s1 = setIRQ s in s1\<lparr>statusReg := statusReg s1 AND NOT BUSY\<rparr>)"

definition endWriteTrackCmd :: "'d DiskDrive \<Rightarrow> 'd WD2793 \<Rightarrow> 'd WD2793" where
  "endWriteTrackCmd D s =
     (let s1 = (case drive_writeTrackData D (dataBuffer s) (drive s) of
                  Inl e \<Rightarrow> s
                | Inr d' \<Rightarrow> s\<lparr>drive := d'\<rparr>)
      in endCmd (s1\<lparr>dataAvailable := 0, dataCurrent := 0, DRQ := False, formatting := False\<rparr>))"

definition getDTRQ :: "'d DiskDrive \<Rightarrow> EmuTime \<Rightarrow> 'd WD2793 \<Rightarrow> bool \<times> 'd WD2793" where
  "getDTRQ D time s =
     (let s1 =
        (if commandReg s AND 0xC0 = 0x80 \<and> statusReg s AND BUSY \<noteq> 0 then
           (if transferring s then
              (let ticks = toInt32 (getTicksTill time s) in
               if ticks \<ge> 15 then s\<lparr>DRQ := True\<rparr> else s)
            else s)
         else if commandReg s AND 0xF0 = 0xF0 \<and> statusReg s AND BUSY \<noteq> 0 then
           (let n = drive_indexPulseCount D (commandStart s) time (drive s) in
            if n = 0 then s
            else if n = 1 then
              (if getTicksTill time s \<ge> 16 then s\<lparr>DRQ := True\<rparr> else s)
            else endWriteTrackCmd D s)
         else s)
      in (DRQ s1, s1))"

definition peekDTRQ :: "EmuTime \<Rightarrow> 'd WD2793 \<Rightarrow> bool" where
  "peekDTRQ time s = DRQ s"

definition getIRQ :: "EmuTime \<Rightarrow> 'd WD2793 \<Rightarrow> bool" where
  "getIRQ time s = (INTRQ s \<or> immediateIRQ s)"

definition peekIRQ :: "EmuTime \<Rightarrow> 'd WD2793 \<Rightarrow> bool" where
  "peekIRQ time s = getIRQ time s"

subsection \<open>Status, track and sector registers\<close>

definition getStatusReg :: "'d DiskDrive \<Rightarrow> EmuTime \<Rightarrow> 'd WD2793 \<Rightarrow> byte \<times> 'd WD2793" where
  "getStatusReg D time s =
     (let s1 =
        (if commandReg s AND 0x80 = 0 \<or> commandReg s AND 0xF0 = 0xD0 then
           (let r0 = statusReg s AND NOT (INDEX OR TRACK00 OR HEAD_LOADED OR WRITE_PROTECTED);
                r1 = (if drive_indexPulse D time (drive s) then r0 OR INDEX else r0);
                r2 = (if drive_isTrack00 D (drive s) then r1 OR TRACK00 else r1);
                r3 = (if drive_headLoaded D time (drive s) then r2 OR HEAD_LOADED else r2);
                r4 = (if drive_isWriteProtected D (drive s) then r3 OR WRITE_PROTECTED else r3)
            in s\<lparr>statusReg := r4\<rparr>)
         else
           (case getDTRQ D time s of
              (drq, s') \<Rightarrow>
                (if drq then s'\<lparr>statusReg := statusReg s' OR S_DRQ\<rparr>
                 else s'\<lparr>statusReg := statusReg s' AND NOT S_DRQ\<rparr>)));
         s2 = (if drive_isDiskInserted D (drive s1)
               then s1\<lparr>statusReg := statusReg s1 AND NOT NOT_READY\<rparr>
               else s1\<lparr>statusReg := statusReg s1 OR NOT_READY\<rparr>);
         s3 = resetIRQ s2
      in (statusReg s3, s3))"

definition peekStatusReg :: "'d DiskDrive \<Rightarrow> EmuTime \<Rightarrow> 'd WD2793 \<Rightarrow> byte \<times> 'd WD2793" where
  "peekStatusReg D time s = getStatusReg D time s"

definition setTrackReg :: "byte \<Rightarrow> EmuTime \<Rightarrow> 'd WD2793 \<Rightarrow> 'd WD2793" where
  "setTrackReg v time s = s\<lparr>trackReg := v\<rparr>"

definition getTrackReg :: "EmuTime \<Rightarrow> 'd WD2793 \<Rightarrow> byte" where
  "getTrackReg time s = trackReg s"

definition peekTrackReg :: "EmuTime \<Rightarrow> 'd WD2793 \<Rightarrow> byte" where
  "peekTrackReg time s = getTrackReg time s"

definition setSectorReg :: "byte \<Rightarrow> EmuTime \<Rightarrow> 'd WD2793 \<Rightarrow> 'd WD2793" where
  "setSectorReg v time s = s\<lparr>sectorReg := v\<rparr>"

definition getSectorReg :: "EmuTime \<Rightarrow> 'd WD2793 \<Rightarrow> byte" where
  "getSectorReg time s = sectorReg s"

definition peekSectorReg :: "EmuTime \<Rightarrow> 'd WD2793 \<Rightarrow> byte" where
  "peekSectorReg time s = getSectorReg time s"

subsection \<open>Reading a sector from the backend\<close>

text \<open>
  \<open>storeBuffer bytes buf\<close> is the buffer after the backend has stored \<open>bytes\<close> at its
  start.
\<close>

definition storeBuffer :: "byte list \<Rightarrow> byte list \<Rightarrow> byte list" where
  "storeBuffer bytes buf = take (length buf) (bytes @ drop (length bytes) buf)"

definition tryToReadSector :: "'d DiskDrive \<Rightarrow> 'd WD2793 \<Rightarrow> error + 'd WD2793" where
  "tryToReadSector D s =
     (case drive_read D (sectorReg s) (drive s) of
        Inl e \<Rightarrow> Inr (s\<lparr>DRQ := False, statusReg := 0\<rparr>)
      | Inr (d', bytes, onDiskTrack, onDiskSector, onDiskSide, onDiskSize) \<Rightarrow>
          (let s1 = s\<lparr>drive := d', dataBuffer := storeBuffer bytes (dataBuffer s)\<rparr> in
           if onDiskTrack \<noteq> trackReg s1 then
             Inr (endCmd (s1\<lparr>statusReg := statusReg s1 OR RECORD_NOT_FOUND\<rparr>))
           else if onDiskSize \<noteq> 512 then Inl AssertionFailed
           else Inr (s1\<lparr>dataCurrent := 0, dataAvailable := onDiskSize,
                         DRQ := False, transferring := True\<rparr>)))"

subsection \<open>Data register\<close>

definition inBuffer :: "'d WD2793 \<Rightarrow> bool" where
  "inBuffer s = (0 \<le> dataCurrent s \<and> dataCurrent s < int (length (dataBuffer s)))"

definition setDataReg :: "'d DiskDrive \<Rightarrow> byte \<Rightarrow> EmuTime \<Rightarrow> 'd WD2793 \<Rightarrow> error + 'd WD2793" where
  "setDataReg D v time s0 =
     (let s = s0\<lparr>dataReg := v\<rparr> in
      if commandReg s AND 0xE0 = 0xA0 \<and> statusReg s AND BUSY \<noteq> 0 then
        (if \<not> inBuffer s then Inl OutOfBounds
         else
           (let s1 = s\<lparr>dataBuffer := (dataBuffer s)[nat (dataCurrent s) := v],
                       dataCurrent := dataCurrent s + 1,
                       dataAvailable := dataAvailable s - 1\<rparr>;
                s2 = setDRQ False time s1
            in if dataAvailable s2 = 0 then
                 (let s3 = s2\<lparr>transferring := False, dataCurrent := 0\<rparr> in
                  case drive_write D (sectorReg s3) (dataBuffer s3) (drive s3) of
                    Inl e \<Rightarrow> Inr (endCmd (s3\<lparr>statusReg := statusReg s3 OR RECORD_NOT_FOUND\<rparr>))
                  | Inr (d', onDiskTrack, onDiskSector, onDiskSide, onDiskSize) \<Rightarrow>
                      (let s4 = s3\<lparr>drive := d', dataAvailable := onDiskSize\<rparr> in
                       if onDiskTrack \<noteq> trackReg s4 then
                         Inr (endCmd (s4\<lparr>statusReg := statusReg s4 OR RECORD_NOT_FOUND\<rparr>))
                       else if onDiskSize \<noteq> 512 then Inl AssertionFailed
                       else if commandReg s4 AND M_FLAG = 0 then Inr (endCmd s4)
                       else Inr (endCmd s4)))
               else Inr s2))
      else if commandReg s AND 0xF0 = 0xF0 \<and> statusReg s AND BUSY \<noteq> 0 then
        (if \<not> formatting s then Inr s
         else
           (let s1 = setDRQ False time s;
                n = drive_indexPulseCount D (commandStart s1) time (drive s1)
            in if n = 0 then Inr s1
               else if n = 1 then
                 (if \<not> dataCurrent s1 < int (length (dataBuffer s1)) then Inl AssertionFailed
                  else if \<not> inBuffer s1 then Inl OutOfBounds
                  else Inr (s1\<lparr>dataBuffer := (dataBuffer s1)[nat (dataCurrent s1) := v],
                                dataCurrent := dataCurrent s1 + 1\<rparr>))
               else Inr (endWriteTrackCmd D s1)))
      else Inr s)"

definition getDataReg :: "'d DiskDrive \<Rightarrow> EmuTime \<Rightarrow> 'd WD2793 \<Rightarrow> error + (byte \<times> 'd WD2793)" where
  "getDataReg D time s =
     (if commandReg s AND 0xE0 = 0x80 \<and> statusReg s AND BUSY \<noteq> 0 then
        (if \<not> inBuffer s then Inl OutOfBounds
         else
           (let s1 = s\<lparr>dataReg := dataBuffer s ! nat (dataCurrent s),
                       dataCurrent := dataCurrent s + 1,
                       dataAvailable := dataAvailable s - 1\<rparr>;
                s2 = setDRQ False time s1
            in if dataAvailable s2 = 0 then
                 (let s3 = s2\<lparr>transferring := False\<rparr> in
                  if commandReg s3 AND M_FLAG = 0 then
                    (let s4 = endCmd s3 in Inr (dataReg s4, s4))
                  else
                    bindE (tryToReadSector D (s3\<lparr>sectorReg := sectorReg s3 + 1\<rparr>))
                      (\<lambda>s4. Inr (dataReg s4, s4)))
               else Inr (dataReg s2, s2)))
      else Inr (dataReg s, s))"

definition peekDataReg :: "EmuTime \<Rightarrow> 'd WD2793 \<Rightarrow> error + byte" where
  "peekDataReg time s =
     (if commandReg s AND 0xE0 = 0x80 \<and> statusReg s AND BUSY \<noteq> 0 then
        (if \<not> inBuffer s then Inl OutOfBounds
         else Inr (dataBuffer s ! nat (dataCurrent s)))
      else Inr (dataReg s))"

subsection \<open>Type I commands\<close>

definition schedule :: "FSMState \<Rightarrow> EmuTime \<Rightarrow> 'd WD2793 \<Rightarrow> error + 'd WD2793" where
  "schedule state time s =
     (if pendingSyncPoint SCHED_FSM s then Inl AssertionFailed
      else setSyncPoint time SCHED_FSM (s\<lparr>fsmState := state\<rparr>))"

definition endType1Cmd :: "'d WD2793 \<Rightarrow> 'd WD2793" where
  "endType1Cmd s = endCmd s"

definition timePerStep :: "nat list" where
  "timePerStep = [6, 12, 20, 30]"

definition step :: "'d DiskDrive \<Rightarrow> EmuTime \<Rightarrow> 'd WD2793 \<Rightarrow> error + 'd WD2793" where
  "step D time s =
     (let s1 =
        (if commandReg s AND T_FLAG \<noteq> 0 \<or> commandReg s AND 0xE0 = 0x00 then
           (if directionIn s then s\<lparr>trackReg := trackReg s + 1\<rparr>
            else s\<lparr>trackReg := trackReg s - 1\<rparr>)
         else s)
      in if \<not> directionIn s1 \<and> drive_isTrack00 D (drive s1) then
           Inr (endType1Cmd (s1\<lparr>trackReg := 0\<rparr>))
         else
           (let s2 = s1\<lparr>drive := drive_step D (directionIn s1) time (drive s1)\<rparr>;
                next = time + ms (timePerStep ! unat (commandReg s2 AND STEP_SPEED))
            in schedule FSM_SEEK next s2))"

definition seek :: "'d DiskDrive \<Rightarrow> EmuTime \<Rightarrow> 'd WD2793 \<Rightarrow> error + 'd WD2793" where
  "seek D time s =
     (if trackReg s = dataReg s then Inr (endType1Cmd s)
      else step D time (s\<lparr>directionIn := (dataReg s > trackReg s)\<rparr>))"

definition seekNext :: "'d DiskDrive \<Rightarrow> EmuTime \<Rightarrow> 'd WD2793 \<Rightarrow> error + 'd WD2793" where
  "seekNext D time s =
     (if commandReg s AND 0xE0 = 0x00 then seek D time s
      else Inr (endType1Cmd s))"

definition startType1Cmd :: "'d DiskDrive \<Rightarrow> EmuTime \<Rightarrow> 'd WD2793 \<Rightarrow> error + 'd WD2793" where
  "startType1Cmd D time s =
     (let s1 = s\<lparr>statusReg := (statusReg s AND NOT (SEEK_ERROR OR CRC_ERROR)) OR BUSY\<rparr>;
          s2 = setDRQ False time s1;
          s3 = s2\<lparr>drive := drive_setHeadLoaded D (commandReg s2 AND H_FLAG \<noteq> 0) time (drive s2)\<rparr>;
          c = commandReg s3 AND 0xF0
      in if c = 0x00 then seek D time (s3\<lparr>trackReg := 0xFF, dataReg := 0x00\<rparr>)
         else if c = 0x10 then seek D time s3
         else if c = 0x20 \<or> c = 0x30 then step D time s3
         else if c = 0x40 \<or> c = 0x50 then step D time (s3\<lparr>directionIn := True\<rparr>)
         else if c = 0x60 \<or> c = 0x70 then step D time (s3\<lparr>directionIn := False\<rparr>)
         else Inr s3)"

subsection \<open>Type II commands\<close>

definition type2WaitLoad :: "EmuTime \<Rightarrow> 'd WD2793 \<Rightarrow> error + 'd WD2793" where
  "type2WaitLoad time s = schedule FSM_TYPE2_LOADED (time + ms 1) s"

definition startType2Cmd :: "'d DiskDrive \<Rightarrow> EmuTime \<Rightarrow> 'd WD2793 \<Rightarrow> error + 'd WD2793" where
  "startType2Cmd D time s =
     (let s1 = s\<lparr>statusReg := (statusReg s AND NOT (LOST_DATA OR RECORD_NOT_FOUND OR
                                                      RECORD_TYPE OR WRITE_PROTECTED)) OR BUSY\<rparr>;
          s2 = setDRQ False time s1
      in if \<not> drive_isDiskInserted D (drive s2) then Inr (endCmd s2)
         else
           (let s3 = s2\<lparr>drive := drive_setHeadLoaded D True time (drive s2)\<rparr> in
            if commandReg s3 AND E_FLAG \<noteq> 0 then
              schedule FSM_TYPE2_WAIT_LOAD (time + ms 30) s3
            else type2WaitLoad time s3))"

definition type2Loaded :: "'d DiskDrive \<Rightarrow> EmuTime \<Rightarrow> 'd WD2793 \<Rightarrow> error + 'd WD2793" where
  "type2Loaded D time s =
     (if commandReg s AND 0xE0 = 0xA0 \<and> drive_isWriteProtected D (drive s) then
        Inr (endCmd (s\<lparr>statusReg := statusReg s OR WRITE_PROTECTED\<rparr>))
      else schedule FSM_TYPE2_ROTATED (drive_getTimeTillSector D (sectorReg s) time (drive s)) s)"

definition type2Rotated :: "'d DiskDrive \<Rightarrow> 'd WD2793 \<Rightarrow> error + 'd WD2793" where
  "type2Rotated D s =
     (let c = commandReg s AND 0xF0 in
      if c = 0x80 \<or> c = 0x90 then tryToReadSector D s
      else if c = 0xA0 \<or> c = 0xB0 then
        Inr (s\<lparr>dataCurrent := 0, dataAvailable := 512, DRQ := True, transferring := True\<rparr>)
      else Inr s)"

subsection \<open>Type III commands\<close>

definition type3WaitLoad :: "EmuTime \<Rightarrow> 'd WD2793 \<Rightarrow> error + 'd WD2793" where
  "type3WaitLoad time s = schedule FSM_TYPE3_LOADED (time + ms 1) s"

definition startType3Cmd :: "'d DiskDrive \<Rightarrow> EmuTime \<Rightarrow> 'd WD2793 \<Rightarrow> error + 'd WD2793" where
  "startType3Cmd D time s =
     (let s1 = s\<lparr>statusReg := (statusReg s AND NOT (LOST_DATA OR RECORD_NOT_FOUND OR
                                                      RECORD_TYPE)) OR BUSY\<rparr>;
          s2 = (setDRQ False time s1)\<lparr>commandStart := time\<rparr>
      in if \<not> drive_isDiskInserted D (drive s2) then Inr (endCmd s2)
         else
           (let s3 = s2\<lparr>drive := drive_setHeadLoaded D True time (drive s2)\<rparr> in
            if commandReg s3 AND E_FLAG \<noteq> 0 then
              schedule FSM_TYPE3_WAIT_LOAD (time + ms 30) s3
            else type3WaitLoad time s3))"

definition readAddressCmd :: "'d WD2793 \<Rightarrow> 'd WD2793" where
  "readAddressCmd s = endCmd s"

definition readTrackCmd :: "'d WD2793 \<Rightarrow> 'd WD2793" where
  "readTrackCmd s = endCmd s"

definition writeTrackCmd :: "'d DiskDrive \<Rightarrow> EmuTime \<Rightarrow> 'd WD2793 \<Rightarrow> 'd WD2793" where
  "writeTrackCmd D time s =
     (if drive_isWriteProtected D (drive s) then
        endCmd (s\<lparr>statusReg := statusReg s OR WRITE_PROTECTED\<rparr>)
      else
        setDRQ True time
          (s\<lparr>formatting := True, dataCurrent := 0,
             dataBuffer := replicate (length (dataBuffer s)) 0\<rparr>))"

definition type3Loaded :: "'d DiskDrive \<Rightarrow> EmuTime \<Rightarrow> 'd WD2793 \<Rightarrow> 'd WD2793" where
  "type3Loaded D time s0 =
     (let s = s0\<lparr>commandStart := time\<rparr>;
          c = commandReg s AND 0xF0
      in if c = 0xC0 then readAddressCmd s
         else if c = 0xE0 then readTrackCmd s
         else if c = 0xF0 then writeTrackCmd D time s
         else s)"

subsection \<open>Type IV command\<close>

definition startType4Cmd :: "'d DiskDrive \<Rightarrow> EmuTime \<Rightarrow> 'd WD2793 \<Rightarrow> error + 'd WD2793" where
  "startType4Cmd D time s =
     (let flags = commandReg s AND 0x0F;
          s1 = (if flags = 0x00 then s\<lparr>immediateIRQ := False\<rparr> else s)
      in bindE
           (if flags AND IDX_IRQ \<noteq> 0 \<and> drive_isDiskInserted D (drive s1) then
              setSyncPoint (drive_getTimeTillIndexPulse D time (drive s1)) SCHED_IDX_IRQ s1
            else Inr (removeSyncPoint SCHED_IDX_IRQ s1))
           (\<lambda>s2.
              let s3 = (if flags AND IMM_IRQ \<noteq> 0 then s2\<lparr>immediateIRQ := True\<rparr> else s2);
                  s4 = setDRQ False time s3
              in Inr (s4\<lparr>statusReg := statusReg s4 AND NOT BUSY\<rparr>)))"

subsection \<open>Command dispatch, scheduler callback and reset\<close>

definition setCommandReg :: "'d DiskDrive \<Rightarrow> byte \<Rightarrow> EmuTime \<Rightarrow> 'd WD2793 \<Rightarrow> error + 'd WD2793" where
  "setCommandReg D v time s =
     (let s1 = (resetIRQ ((removeSyncPoint SCHED_FSM s)\<lparr>commandReg := v\<rparr>))\<lparr>transferring := False\<rparr>;
          c = commandReg s1 AND 0xF0
      in if c \<in> {0x00, 0x10, 0x20, 0x30, 0x40, 0x50, 0x60, 0x70} then startType1Cmd D time s1
         else if c \<in> {0x80, 0x90, 0xA0, 0xB0} then startType2Cmd D time s1
         else if c \<in> {0xC0, 0xE0, 0xF0} then startType3Cmd D time s1
         else if c = 0xD0 then startType4Cmd D time s1
         else Inr s1)"

definition executeUntil :: "'d DiskDrive \<Rightarrow> EmuTime \<Rightarrow> SyncPointType \<Rightarrow> 'd WD2793 \<Rightarrow> error + 'd WD2793" where
  "executeUntil D time userData s0 =
     (if userData = SCHED_IDX_IRQ then Inr (s0\<lparr>INTRQ := True\<rparr>)
      else
        (let state = fsmState s0;
             s = s0\<lparr>fsmState := FSM_NONE\<rparr>
         in case state of
              FSM_SEEK \<Rightarrow>
                (if commandReg s AND 0x80 = 0x00 then seekNext D time s else Inr s)
            | FSM_TYPE2_WAIT_LOAD \<Rightarrow>
                (if commandReg s AND 0xC0 = 0x80 then type2WaitLoad time s else Inr s)
            | FSM_TYPE2_LOADED \<Rightarrow>
                (if commandReg s AND 0xC0 = 0x80 then type2Loaded D time s else Inr s)
            | FSM_TYPE2_ROTATED \<Rightarrow>
                (if commandReg s AND 0xC0 = 0x80 then type2Rotated D s else Inr s)
            | FSM_TYPE3_WAIT_LOAD \<Rightarrow>
                (if commandReg s AND 0xC0 = 0xC0 \<and> commandReg s AND 0xF0 \<noteq> 0xD0
                 then type3WaitLoad time s else Inr s)
            | FSM_TYPE3_LOADED \<Rightarrow>
                (if commandReg s AND 0xC0 = 0xC0 \<and> commandReg s AND 0xF0 \<noteq> 0xD0
                 then Inr (type3Loaded D time s) else Inr s)
            | FSM_NONE \<Rightarrow> Inl Unreachable
            | FSM_IDX_IRQ \<Rightarrow> Inl Unreachable))"

definition reset :: "'d DiskDrive \<Rightarrow> EmuTime \<Rightarrow> 'd WD2793 \<Rightarrow> error + 'd WD2793" where
  "reset D time s =
     (let s1 = removeSyncPoint SCHED_IDX_IRQ (removeSyncPoint SCHED_FSM s);
          s2 = s1\<lparr>fsmState := FSM_NONE, statusReg := 0, trackReg := 0, dataReg := 0,
                  directionIn := True\<rparr>;
          s3 = resetIRQ (setDRQ False time s2);
          s4 = s3\<lparr>immediateIRQ := False, formatting := False, transferring := False,
                  sectorReg := 0x01\<rparr>
      in setCommandReg D 0x03 time s4)"

text \<open>
  The constructor: the buffer of \<open>n\<close> bytes is zeroed, the two counters are 0, the
  two timestamps are \<open>time\<close>, no SyncPoint is pending, and \<open>reset\<close> gives every other
  member its value (the values written for them here are overwritten by \<open>reset\<close>).
\<close>

definition construct :: "'d DiskDrive \<Rightarrow> 'd \<Rightarrow> nat \<Rightarrow> EmuTime \<Rightarrow> error + 'd WD2793" where
  "construct D d n time =
     reset D time
       \<lparr>drive = d, commandStart = time, DRQTimer = time, fsmState = FSM_NONE,
        statusReg = 0, commandReg = 0, sectorReg = 0, trackReg = 0, dataReg = 0,
        directionIn = False, INTRQ = False, immediateIRQ = False, DRQ = False,
        transferring = False, formatting = False,
        dataBuffer = replicate n 0, dataCurrent = 0, dataAvailable = 0,
        syncPoints = []\<rparr>"

subsection \<open>Driving the controller\<close>

text \<open>
  Modelled from the spec: \<open>advanceTo\<close> of the absent \<open>Scheduler\<close>. It fires, in queue
  order, every SyncPoint that was pending with a fire time up to \<open>now\<close> when the call
  began; a SyncPoint registered by a callback waits for a later call. A SyncPoint is
  removed from the queue before its owner's \<open>executeUntil\<close> runs.
\<close>

fun fireDue :: "'d DiskDrive \<Rightarrow> (EmuTime \<times> SyncPointType) list \<Rightarrow> 'd WD2793 \<Rightarrow> error + 'd WD2793" where
  "fireDue D [] s = Inr s"
| "fireDue D (p # due) s =
     (if p \<in> set (syncPoints s) then
        bindE (executeUntil D (fst p) (snd p) (s\<lparr>syncPoints := remove1 p (syncPoints s)\<rparr>))
          (fireDue D due)
      else fireDue D due s)"

definition advanceTo :: "'d DiskDrive \<Rightarrow> EmuTime \<Rightarrow> 'd WD2793 \<Rightarrow> error + 'd WD2793" where
  "advanceTo D now s = fireDue D (filter (\<lambda>p. fst p \<le> now) (syncPoints s)) s"

text \<open>
  The emulation loop letting every scheduled delay elapse: it advances the clock to
  the fire time of the earliest pending SyncPoint until none is pending. \<open>fuel\<close> bounds
  the number of rounds; running out of it is the result \<open>Inl OutOfFuel\<close>.
\<close>

fun settle :: "'d DiskDrive \<Rightarrow> nat \<Rightarrow> 'd WD2793 \<Rightarrow> error + 'd WD2793" where
  "settle D fuel s =
     (case syncPoints s of
        [] \<Rightarrow> Inr s
      | p # ps \<Rightarrow>
          (case fuel of
             0 \<Rightarrow> Inl OutOfFuel
           | Suc n \<Rightarrow> bindE (advanceTo D (fst p) s) (settle D n)))"

text \<open>The CPU reading, and writing, the data register once at each of the given times.\<close>

fun getDataRegs :: "'d DiskDrive \<Rightarrow> EmuTime list \<Rightarrow> 'd WD2793 \<Rightarrow> error + (byte list \<times> 'd WD2793)" where
  "getDataRegs D [] s = Inr ([], s)"
| "getDataRegs D (t # ts) s =
     bindE (getDataReg D t s)
       (\<lambda>(b, s1). bindE (getDataRegs D ts s1) (\<lambda>(bs, s2). Inr (b # bs, s2)))"

fun setDataRegs :: "'d DiskDrive \<Rightarrow> (byte \<times> EmuTime) list \<Rightarrow> 'd WD2793 \<Rightarrow> error + 'd WD2793" where
  "setDataRegs D [] s = Inr s"
| "setDataRegs D (w # ws) s = bindE (setDataReg D (fst w) (snd w) s) (setDataRegs D ws)"

subsection \<open>An example backend\<close>

text \<open>
  A small backend to run the controller on: the drive state is the track under the
  head. A disk is inserted and not write protected, an index pulse passes every
  200000 microseconds, and a sector is under the head one millisecond after it is asked
  for. With \<open>fault\<close> every media access throws; otherwise a sector read yields the
  bytes 0, 1, 2, ... (modulo 256) and every sector header names the track \<open>trk\<close>.
\<close>

definition exampleDrive :: "bool \<Rightarrow> byte \<Rightarrow> nat DiskDrive" where
  "exampleDrive fault trk =
     \<lparr>drive_isDiskInserted = (\<lambda>d. True),
      drive_isWriteProtected = (\<lambda>d. False),
      drive_isTrack00 = (\<lambda>d. d = 0),
      drive_headLoaded = (\<lambda>t d. True),
      drive_setHeadLoaded = (\<lambda>b t d. d),
      drive_step = (\<lambda>dirIn t d. if dirIn then d + 1 else d - 1),
      drive_indexPulse = (\<lambda>t d. t mod 200000 = 0),
      drive_indexPulseCount = (\<lambda>t0 t1 d. int (t1 div 200000) - int (t0 div 200000)),
      drive_getTimeTillIndexPulse = (\<lambda>t d. (t div 200000 + 1) * 200000),
      drive_getTimeTillSector = (\<lambda>sec t d. t + ms 1),
      drive_read = (\<lambda>sec d. if fault then Inl MSXException
                     else Inr (d, map of_nat [0..<512], trk, sec, 0, 512)),
      drive_write = (\<lambda>sec buf d. if fault then Inl MSXException
                     else Inr (d, trk, sec, 0, 512)),
      drive_writeTrackData = (\<lambda>buf d. if fault then Inl MSXException else Inr d)\<rparr>"

subsection \<open>Example runs\<close>

text \<open>
  The controller right after construction on the example backend, head at track 0
  and a buffer of 6250 bytes: the Restore that \<open>reset\<close> issues has ended at once.
\<close>

definition poweredOn :: "nat WD2793" where
  "poweredOn = projr (construct (exampleDrive False 0) 0 6250 0)"

text \<open>
  From there, a Read Sector command at time 10 whose head-load and rotation delays
  have elapsed: the sector is in the buffer and no byte has been read yet.
\<close>

definition readingState :: "nat WD2793" where
  "readingState =
     projr (bindE (setCommandReg (exampleDrive False 0) 0x80 10 poweredOn)
              (settle (exampleDrive False 0) 3))"

subsection \<open>Predicates on controller states\<close>

text \<open>
  At most one SyncPoint is pending, and it is the controller's FSM callback: no
  index-pulse interrupt is armed.
\<close>

definition onlyFSMPending :: "'d WD2793 \<Rightarrow> bool" where
  "onlyFSMPending s =
     (case syncPoints s of [] \<Rightarrow> True | p # ps \<Rightarrow> snd p = SCHED_FSM \<and> ps = [])"

text \<open>
  A Restore command in flight, between two steps: BUSY, the data register holds the
  target track 0, and the next step is scheduled.
\<close>

definition restoring :: "'d WD2793 \<Rightarrow> bool" where
  "restoring s =
     (commandReg s AND 0xF0 = 0x00 \<and> dataReg s = 0 \<and> statusReg s AND BUSY \<noteq> 0
      \<and> fsmState s = FSM_SEEK \<and> syncPoints s \<noteq> [] \<and> onlyFSMPending s)"

text \<open>A Restore command that has ended.\<close>

definition restored :: "'d WD2793 \<Rightarrow> bool" where
  "restored s =
     (trackReg s = 0 \<and> statusReg s AND BUSY = 0 \<and> INTRQ s \<and> syncPoints s = [])"

text \<open>
  The transfer phase of a single-sector Read Sector command: \<open>n\<close> bytes remain, the
  next one at position \<open>c\<close> of the buffer.
\<close>

definition reading :: "nat \<Rightarrow> nat \<Rightarrow> 'd WD2793 \<Rightarrow> bool" where
  "reading c n s =
     (commandReg s AND 0xF0 = 0x80 \<and> statusReg s AND BUSY \<noteq> 0
      \<and> dataCurrent s = int c \<and> dataAvailable s = int n
      \<and> c + n \<le> length (dataBuffer s))"

text \<open>
  A Type II command \<open>v\<close> in flight, waiting for its FSM callback in phase \<open>st\<close>.
\<close>

definition type2Pending ::
  "FSMState \<Rightarrow> byte \<Rightarrow> byte \<Rightarrow> byte \<Rightarrow> byte list \<Rightarrow> 'd \<Rightarrow> 'd WD2793 \<Rightarrow> bool" where
  "type2Pending st v trk sec buf d s =
     (fsmState s = st \<and> syncPoints s \<noteq> [] \<and> onlyFSMPending s
      \<and> commandReg s = v \<and> statusReg s AND BUSY \<noteq> 0
      \<and> trackReg s = trk \<and> sectorReg s = sec \<and> dataBuffer s = buf \<and> drive s = d)"

text \<open>
  The transfer phase of a Write Sector command: \<open>n\<close> bytes are still to be written,
  the next one to position \<open>c\<close> of the buffer.
\<close>

definition writing :: "nat \<Rightarrow> nat \<Rightarrow> byte \<Rightarrow> byte \<Rightarrow> 'd \<Rightarrow> 'd WD2793 \<Rightarrow> bool" where
  "writing c n trk sec d s =
     (commandReg s AND 0xE0 = 0xA0 \<and> statusReg s AND BUSY \<noteq> 0
      \<and> dataCurrent s = int c \<and> dataAvailable s = int n
      \<and> c + n \<le> length (dataBuffer s)
      \<and> trackReg s = trk \<and> sectorReg s = sec \<and> drive s = d)"

text \<open>The buffer with \<open>bytes\<close> stored from position \<open>c\<close> on.\<close>

definition fillFrom :: "nat \<Rightarrow> byte list \<Rightarrow> byte list \<Rightarrow> byte list" where
  "fillFrom c bytes buf = take c buf @ bytes @ drop (c + length bytes) buf"

text \<open>
  A Type I command in the middle of its stepping while an index-pulse interrupt is
  armed: with the head at track 3, a Force Interrupt with the index-pulse flag (0xD4)
  at time 10, then a Restore (0x03) at time 50.
\<close>

definition armedSeekingState :: "nat WD2793" where
  "armedSeekingState =
     projr (bindE (setCommandReg (exampleDrive False 0) 0xD4 10 (poweredOn\<lparr>drive := 3\<rparr>))
              (setCommandReg (exampleDrive False 0) 0x03 50))"

text \<open>
  A Read Sector command at time 10 on the example backend whose media accesses throw,
  after its delays have elapsed.
\<close>

definition faultedRead :: "nat WD2793" where
  "faultedRead =
     projr (bindE (setCommandReg (exampleDrive True 0) 0x80 10 poweredOn)
              (settle (exampleDrive True 0) 3))"

text \<open>
  A controller state in which a Write Sector command waits for the last byte of the
  sector, and one in which a Write Track command is accumulating the track.
\<close>

definition lastByteState :: "nat WD2793" where
  "lastByteState =
     poweredOn\<lparr>commandReg := 0xA0, statusReg := 0x01, INTRQ := False,
               dataCurrent := 511, dataAvailable := 1, transferring := True\<rparr>"

definition formattingState :: "nat WD2793" where
  "formattingState =
     poweredOn\<lparr>commandReg := 0xF0, statusReg := 0x01, INTRQ := False,
               formatting := True, DRQ := True\<rparr>"

section \<open>Properties\<close>

lemma bindE_Inl [simp]: "bindE (Inl e) f = Inl e"
  by (simp add: bindE_def)

lemma bindE_Inr [simp]: "bindE (Inr x) f = f x"
  by (simp add: bindE_def)

lemmas wd2793_defs =
  reset_def setCommandReg_def startType1Cmd_def startType2Cmd_def
  startType3Cmd_def startType4Cmd_def seek_def step_def seekNext_def endType1Cmd_def endCmd_def
  setIRQ_def resetIRQ_def setDRQ_def schedule_def setSyncPoint_def removeSyncPoint_def
  pendingSyncPoint_def type2WaitLoad_def type2Loaded_def type2Rotated_def tryToReadSector_def
  type3WaitLoad_def type3Loaded_def executeUntil_def advanceTo_def getDataReg_def setDataReg_def
  getDTRQ_def peekDTRQ_def getStatusReg_def peekStatusReg_def getTicksTill_def toInt32_def inBuffer_def
  exampleDrive_def ms_def timePerStep_def Let_def getIRQ_def peekIRQ_def

subsection \<open>The example runs, evaluated\<close>

lemma construct_poweredOn:
  "construct (exampleDrive False 0) 0 6250 0 =
     Inr \<lparr>drive = 0, commandStart = 0, DRQTimer = 0, fsmState = FSM_NONE,
        statusReg = 0, commandReg = 0x03, sectorReg = 0x01, trackReg = 0, dataReg = 0,
        directionIn = False, INTRQ = True, immediateIRQ = False, DRQ = False,
        transferring = False, formatting = False,
        dataBuffer = replicate 6250 0, dataCurrent = 0, dataAvailable = 0,
        syncPoints = []\<rparr>"
  by (simp add: construct_def wd2793_defs)

lemma poweredOn_eq:
  "poweredOn =
     \<lparr>drive = 0, commandStart = 0, DRQTimer = 0, fsmState = FSM_NONE,
        statusReg = 0, commandReg = 0x03, sectorReg = 0x01, trackReg = 0, dataReg = 0,
        directionIn = False, INTRQ = True, immediateIRQ = False, DRQ = False,
        transferring = False, formatting = False,
        dataBuffer = replicate 6250 0, dataCurrent = 0, dataAvailable = 0,
        syncPoints = []\<rparr>"
  by (simp add: poweredOn_def construct_poweredOn)

lemma reading_run:
  "bindE (setCommandReg (exampleDrive False 0) 0x80 10 poweredOn)
     (settle (exampleDrive False 0) 3) =
   Inr \<lparr>drive = 0, commandStart = 0, DRQTimer = 10, fsmState = FSM_NONE,
        statusReg = 0x01, commandReg = 0x80, sectorReg = 0x01, trackReg = 0, dataReg = 0,
        directionIn = False, INTRQ = False, immediateIRQ = False, DRQ = False,
        transferring = True, formatting = False,
        dataBuffer = storeBuffer (map of_nat [0..<512]) (replicate 6250 0),
        dataCurrent = 0, dataAvailable = 512, syncPoints = []\<rparr>"
  by (simp add: poweredOn_eq wd2793_defs del: upt_rec_numeral)

subsection \<open>Peek and read\<close>

text \<open>
  C10: every call of \<open>getStatusReg\<close>, and so every call of \<open>peekStatusReg\<close>, which
  delegates to it, leaves the interrupt request line \<open>INTRQ\<close> false: reading or
  peeking the status register acknowledges an outstanding interrupt.
\<close>

theorem status_read_clears_INTRQ:
  "INTRQ (snd (getStatusReg D t s)) = False \<and> INTRQ (snd (peekStatusReg D t s)) = False"
  by (simp add: peekStatusReg_def getStatusReg_def Let_def resetIRQ_def split: prod.splits)

text \<open>
  C2, at a failing input: on the freshly constructed controller the interrupt of the
  finished Restore is pending. \<open>peekStatusReg\<close> at time 10 clears it, so that
  \<open>peekIRQ\<close> at the same time answers true before the peek of the status register
  and false after it, and it rewrites the status register from 0x00 to 0x24.
\<close>

theorem peekStatusReg_mutates:
  "construct (exampleDrive False 0) 0 6250 0 = Inr poweredOn
   \<and> peekIRQ 10 poweredOn
   \<and> \<not> peekIRQ 10 (snd (peekStatusReg (exampleDrive False 0) 10 poweredOn))
   \<and> statusReg poweredOn = 0x00
   \<and> statusReg (snd (peekStatusReg (exampleDrive False 0) 10 poweredOn)) = 0x24"
  using construct_poweredOn by (simp add: poweredOn_eq wd2793_defs)

text \<open>
  C3, at a failing input: during the transfer phase of a Read Sector command, 2990
  ticks after the data request timer was started, \<open>peekDTRQ\<close> answers false where
  \<open>getDTRQ\<close> at the same time answers true.
\<close>

theorem peekDTRQ_differs_from_getDTRQ:
  "peekDTRQ 3000 readingState = False
   \<and> fst (getDTRQ (exampleDrive False 0) 3000 readingState) = True"
  unfolding readingState_def reading_run by (simp add: wd2793_defs)

subsection \<open>SyncPoints\<close>

text \<open>
  C4, at a failing input: a Force Interrupt command with the index-pulse flag (0xD4)
  leaves a SyncPoint with tag \<open>SCHED_IDX_IRQ\<close> pending; a second 0xD4 before the index
  pulse calls \<open>setSyncPoint\<close> for that tag again without cancelling the first, which
  the scheduler refuses as a contract violation.
\<close>

theorem startType4Cmd_registers_twice:
  "map_sum id (pendingSyncPoint SCHED_IDX_IRQ)
     (setCommandReg (exampleDrive False 0) 0xD4 10 poweredOn) = Inr True
   \<and> bindE (setCommandReg (exampleDrive False 0) 0xD4 10 poweredOn)
        (setCommandReg (exampleDrive False 0) 0xD4 20) = Inl ContractViolation"
  by (simp add: poweredOn_eq wd2793_defs)

subsection \<open>The transfer counter\<close>

text \<open>
  C9, at a failing input: a Read Sector command is dispatched at time 10 and the data
  register is read at time 20, while the head is still loading and no transfer is
  active. The read decrements \<open>dataAvailable\<close> from 0 to -1.
\<close>

theorem early_read_makes_dataAvailable_negative:
  "dataAvailable poweredOn = 0
   \<and> map_sum id (dataAvailable \<circ> snd)
        (bindE (setCommandReg (exampleDrive False 0) 0x80 10 poweredOn)
           (getDataReg (exampleDrive False 0) 20)) = Inr (- 1)
   \<and> map_sum id (transferring \<circ> snd)
        (bindE (setCommandReg (exampleDrive False 0) 0x80 10 poweredOn)
           (getDataReg (exampleDrive False 0) 20)) = Inr False"
  by (simp add: poweredOn_eq wd2793_defs)

subsection \<open>Bit masks\<close>

lemma sub_mask:
  assumes "(m :: byte) AND 0xF0 = m"
  shows "(v :: byte) AND m = (v AND 0xF0) AND m"
proof -
  have "(v AND 0xF0) AND m = v AND (0xF0 AND m)" by (simp only: and.assoc)
  also have "0xF0 AND m = m" using assms by (simp only: and.commute)
  finally show ?thesis by simp
qed

lemma restore_masks:
  assumes "(v :: byte) AND 0xF0 = 0x00"
  shows "v AND 0x80 = 0" and "v AND 0xE0 = 0" and "v AND 0xC0 = 0" and "v AND 0x10 = 0"
  using assms sub_mask [of "0x80" v] sub_mask [of "0xE0" v] sub_mask [of "0xC0" v]
    sub_mask [of "0x10" v]
  by simp_all

lemma and_bit0: "((x :: byte) AND 0x01 = 0) = (\<not> bit x 0)"
  using bit_iff_and_push_bit_not_eq_0 [of x 0] by simp

lemma and_bit2: "((x :: byte) AND 0x04 = 0) = (\<not> bit x 2)"
  using bit_iff_and_push_bit_not_eq_0 [of x 2] by simp

lemma and_bit3: "((x :: byte) AND 0x08 = 0) = (\<not> bit x 3)"
  using bit_iff_and_push_bit_not_eq_0 [of x 3] by simp

lemma and_bit4: "((x :: byte) AND 0x10 = 0) = (\<not> bit x 4)"
  using bit_iff_and_push_bit_not_eq_0 [of x 4] by simp

lemma and_bit6: "((x :: byte) AND 0x40 = 0) = (\<not> bit x 6)"
  using bit_iff_and_push_bit_not_eq_0 [of x 6] by simp

lemmas bit_tests = and_bit0 and_bit2 and_bit3 and_bit4 and_bit6 bit_simps

subsection \<open>Firing a single SyncPoint\<close>

lemma fireDue_Nil: "fireDue D [] = Inr"
  by (rule ext) simp

lemma bindE_Inr_id [simp]: "bindE m Inr = m"
  by (cases m) simp_all

lemma advanceTo_single:
  "syncPoints s = [(t, tag)] \<Longrightarrow> advanceTo D t s = executeUntil D t tag (s\<lparr>syncPoints := []\<rparr>)"
  by (simp add: advanceTo_def fireDue_Nil)

lemma onlyFSMPending_cases:
  "onlyFSMPending s \<Longrightarrow> syncPoints s = [] \<or> (\<exists>t. syncPoints s = [(t, SCHED_FSM)])"
  by (auto simp add: onlyFSMPending_def split: list.splits)

lemma settle_single:
  "syncPoints s = [(t, tag)] \<Longrightarrow>
   settle D (Suc n) s = bindE (executeUntil D t tag (s\<lparr>syncPoints := []\<rparr>)) (settle D n)"
  by (simp add: advanceTo_single)

lemma settle_empty: "syncPoints s = [] \<Longrightarrow> settle D n s = Inr s"
  by simp

subsection \<open>Restore\<close>

lemma unat_pred_less: "(w :: byte) \<noteq> 0 \<Longrightarrow> unat (w - 1) < unat w"
  by (simp add: unat_minus_one unat_gt_0)

lemma restore_callback:
  assumes "restoring s" and "syncPoints s = [(t, SCHED_FSM)]"
  shows "\<exists>s'. executeUntil D t SCHED_FSM (s\<lparr>syncPoints := []\<rparr>) = Inr s'
           \<and> (restored s' \<or> (restoring s' \<and> unat (trackReg s') < unat (trackReg s)))"
proof -
  from assms(1) have c: "commandReg s AND 0xF0 = 0" and d: "dataReg s = 0"
    and b: "statusReg s AND BUSY \<noteq> 0" and f: "fsmState s = FSM_SEEK"
    by (simp_all add: restoring_def)
  note m = restore_masks [OF c]
  show ?thesis
  proof (cases "trackReg s = 0")
    case True
    then show ?thesis
      using m d f
      by (simp add: executeUntil_def seekNext_def seek_def endType1Cmd_def endCmd_def
          setIRQ_def restored_def bit_tests)
  next
    case False
    then have lt: "unat (trackReg s - 1) < unat (trackReg s)" by (rule unat_pred_less)
    from False have nlt: "\<not> (0 < trackReg s) \<Longrightarrow> False" by (simp add: word_neq_0_conv)
    show ?thesis
      using m d f b c lt False
      by (simp add: executeUntil_def seekNext_def seek_def step_def endType1Cmd_def endCmd_def
          setIRQ_def restored_def restoring_def schedule_def setSyncPoint_def
          pendingSyncPoint_def onlyFSMPending_def Let_def bit_tests)
  qed
qed

lemma restoring_single: "restoring s \<Longrightarrow> \<exists>t. syncPoints s = [(t, SCHED_FSM)]"
  by (auto simp add: restoring_def onlyFSMPending_def split: list.splits)

lemma settle_restoring:
  "restoring s \<Longrightarrow> unat (trackReg s) < n \<Longrightarrow> \<exists>s'. settle D n s = Inr s' \<and> restored s'"
proof (induction n arbitrary: s)
  case 0
  then show ?case by simp
next
  case (Suc n)
  from Suc.prems(1) obtain t where sp: "syncPoints s = [(t, SCHED_FSM)]"
    using restoring_single by blast
  from restore_callback [OF Suc.prems(1) sp, of D]
  obtain s1 where ex: "executeUntil D t SCHED_FSM (s\<lparr>syncPoints := []\<rparr>) = Inr s1"
    and alt: "restored s1 \<or> (restoring s1 \<and> unat (trackReg s1) < unat (trackReg s))"
    by blast
  have step: "settle D (Suc n) s = settle D n s1"
    by (simp only: settle_single [OF sp] ex bindE_Inr)
  from alt show ?case
  proof
    assume r: "restored s1"
    then have "settle D n s1 = Inr s1" by (simp add: restored_def settle_empty)
    with r step show ?thesis by simp
  next
    assume r: "restoring s1 \<and> unat (trackReg s1) < unat (trackReg s)"
    with Suc.prems(2) have "unat (trackReg s1) < n" by simp
    with Suc.IH r step show ?thesis by simp
  qed
qed

lemma removeTag_onlyFSM: "onlyFSMPending s \<Longrightarrow> removeTag SCHED_FSM (syncPoints s) = []"
  by (auto simp add: onlyFSMPending_def split: list.splits)

lemma restore_dispatch:
  assumes "v AND 0xF0 = 0x00" and "onlyFSMPending s"
  shows "\<exists>s1. setCommandReg D v t s = Inr s1
           \<and> (restored s1 \<or> (restoring s1 \<and> trackReg s1 = 0xFE))"
  using restore_masks [OF assms(1)] assms(1) removeTag_onlyFSM [OF assms(2)]
  by (simp add: setCommandReg_def startType1Cmd_def seek_def step_def endType1Cmd_def endCmd_def
      setIRQ_def resetIRQ_def setDRQ_def removeSyncPoint_def schedule_def setSyncPoint_def
      pendingSyncPoint_def restored_def restoring_def onlyFSMPending_def Let_def bit_tests)

text \<open>
  C7: a Restore command (opcode 0x0X), dispatched on a controller with no index-pulse
  interrupt armed and followed to its end through the scheduled callbacks, ends within
  255 callbacks with the track register 0 and BUSY cleared (the interrupt is raised
  and no callback is left pending).
\<close>

theorem restore_ends_at_track_zero:
  assumes "v AND 0xF0 = 0x00" and "onlyFSMPending s"
  shows "\<exists>s'. bindE (setCommandReg D v t s) (settle D 255) = Inr s'
           \<and> trackReg s' = 0 \<and> statusReg s' AND BUSY = 0 \<and> INTRQ s'
           \<and> syncPoints s' = []"
proof -
  from restore_dispatch [OF assms, of D t]
  obtain s1 where d: "setCommandReg D v t s = Inr s1"
    and alt: "restored s1 \<or> (restoring s1 \<and> trackReg s1 = 0xFE)"
    by blast
  from alt have "\<exists>s'. settle D 255 s1 = Inr s' \<and> restored s'"
  proof
    assume "restored s1"
    then show ?thesis by (simp add: restored_def)
  next
    assume r: "restoring s1 \<and> trackReg s1 = 0xFE"
    then have "unat (trackReg s1) < 255" by simp
    with r show ?thesis using settle_restoring by blast
  qed
  with d show ?thesis by (simp add: restored_def)
qed

theorem restore_ends_at_track_zero_witness:
  "(0x03 :: byte) AND 0xF0 = 0x00 \<and> onlyFSMPending (poweredOn\<lparr>drive := 3\<rparr>)
   \<and> (\<exists>s'. bindE (setCommandReg (exampleDrive False 0) 0x03 50 (poweredOn\<lparr>drive := 3\<rparr>))
               (settle (exampleDrive False 0) 255) = Inr s'
           \<and> trackReg s' = 0 \<and> statusReg s' AND BUSY = 0 \<and> INTRQ s'
           \<and> syncPoints s' = [])"
proof -
  have h1: "(0x03 :: byte) AND 0xF0 = 0x00" by simp
  have h2: "onlyFSMPending (poweredOn\<lparr>drive := 3\<rparr>)"
    by (simp add: onlyFSMPending_def poweredOn_eq)
  from restore_ends_at_track_zero [OF h1 h2] h1 h2 show ?thesis by blast
qed

subsection \<open>Read Sector\<close>

lemma read_masks:
  assumes "(v :: byte) AND 0xF0 = 0x80"
  shows "v AND 0x80 = 0x80" and "v AND 0xE0 = 0x80" and "v AND 0xC0 = 0x80" and "v AND 0x10 = 0"
  using assms sub_mask [of "0x80" v] sub_mask [of "0xE0" v] sub_mask [of "0xC0" v]
    sub_mask [of "0x10" v]
  by simp_all

lemma getDataReg_more:
  assumes "reading c (Suc (Suc n)) s"
  shows "\<exists>s'. getDataReg D t s = Inr (dataBuffer s ! c, s') \<and> reading (Suc c) (Suc n) s'
           \<and> dataBuffer s' = dataBuffer s"
proof -
  from assms have c: "commandReg s AND 0xF0 = 0x80" by (simp add: reading_def)
  note m = read_masks [OF c]
  show ?thesis
    using assms m
    by (simp add: reading_def getDataReg_def inBuffer_def setDRQ_def Let_def)
qed

lemma getDataReg_last:
  assumes "reading c (Suc 0) s"
  shows "\<exists>s'. getDataReg D t s = Inr (dataBuffer s ! c, s')
           \<and> statusReg s' AND BUSY = 0 \<and> INTRQ s'"
proof -
  from assms have c: "commandReg s AND 0xF0 = 0x80" by (simp add: reading_def)
  note m = read_masks [OF c]
  show ?thesis
    using assms m
    by (simp add: reading_def getDataReg_def inBuffer_def setDRQ_def endCmd_def setIRQ_def
        Let_def bit_tests)
qed

lemma getDataRegs_reading:
  "reading c (Suc n) s \<Longrightarrow> length ts = Suc n \<Longrightarrow>
   \<exists>s'. getDataRegs D ts s = Inr (take (Suc n) (drop c (dataBuffer s)), s')
         \<and> statusReg s' AND BUSY = 0 \<and> INTRQ s'"
proof (induction n arbitrary: c s ts)
  case 0
  then obtain t where ts: "ts = [t]" by (cases ts) simp_all
  from 0 have lt: "c < length (dataBuffer s)" by (simp add: reading_def)
  from getDataReg_last [OF 0(1), of D t]
  obtain s' where g: "getDataReg D t s = Inr (dataBuffer s ! c, s')"
    and e: "statusReg s' AND BUSY = 0" "INTRQ s'" by blast
  have "take (Suc 0) (drop c (dataBuffer s)) = [dataBuffer s ! c]"
    using lt by (simp add: Cons_nth_drop_Suc [symmetric])
  with g e ts show ?case by simp
next
  case (Suc n)
  then obtain t ts' where ts: "ts = t # ts'" and len: "length ts' = Suc n"
    by (cases ts) simp_all
  from Suc.prems have lt: "c < length (dataBuffer s)" by (simp add: reading_def)
  from getDataReg_more [OF Suc.prems(1), of D t]
  obtain s1 where g: "getDataReg D t s = Inr (dataBuffer s ! c, s1)"
    and r: "reading (Suc c) (Suc n) s1" and b: "dataBuffer s1 = dataBuffer s" by blast
  from Suc.IH [OF r len]
  obtain s' where gs: "getDataRegs D ts' s1 = Inr (take (Suc n) (drop (Suc c) (dataBuffer s1)), s')"
    and e: "statusReg s' AND BUSY = 0" "INTRQ s'" by blast
  have "take (Suc (Suc n)) (drop c (dataBuffer s))
        = dataBuffer s ! c # take (Suc n) (drop (Suc c) (dataBuffer s))"
    using lt by (simp add: Cons_nth_drop_Suc [symmetric])
  with g gs e ts b show ?case by simp
qed

lemma type2Pending_single:
  "type2Pending st v trk sec buf d s \<Longrightarrow> \<exists>t. syncPoints s = [(t, SCHED_FSM)]"
  by (auto simp add: type2Pending_def onlyFSMPending_def split: list.splits)

lemma read_dispatch:
  assumes "v AND 0xF0 = 0x80" and "onlyFSMPending s" and "drive_isDiskInserted D (drive s)"
  shows "\<exists>s1. setCommandReg D v t s = Inr s1
           \<and> (type2Pending FSM_TYPE2_WAIT_LOAD v (trackReg s) (sectorReg s) (dataBuffer s)
                 (drive_setHeadLoaded D True t (drive s)) s1
              \<or> type2Pending FSM_TYPE2_LOADED v (trackReg s) (sectorReg s) (dataBuffer s)
                 (drive_setHeadLoaded D True t (drive s)) s1)"
  using assms(1,3) removeTag_onlyFSM [OF assms(2)]
  by (simp add: setCommandReg_def startType2Cmd_def type2WaitLoad_def resetIRQ_def setDRQ_def
      removeSyncPoint_def schedule_def setSyncPoint_def pendingSyncPoint_def
      type2Pending_def onlyFSMPending_def Let_def bit_tests)

lemma type2_wait_load_callback:
  assumes "type2Pending FSM_TYPE2_WAIT_LOAD v trk sec buf d s" and "v AND 0xC0 = 0x80"
    and "syncPoints s = [(t, SCHED_FSM)]"
  shows "\<exists>s'. executeUntil D t SCHED_FSM (s\<lparr>syncPoints := []\<rparr>) = Inr s'
           \<and> type2Pending FSM_TYPE2_LOADED v trk sec buf d s'"
  using assms
  by (simp add: executeUntil_def type2WaitLoad_def schedule_def setSyncPoint_def
      pendingSyncPoint_def type2Pending_def onlyFSMPending_def Let_def)

lemma read_loaded_callback:
  assumes "type2Pending FSM_TYPE2_LOADED v trk sec buf d s" and "v AND 0xF0 = 0x80"
    and "syncPoints s = [(t, SCHED_FSM)]"
  shows "\<exists>s'. executeUntil D t SCHED_FSM (s\<lparr>syncPoints := []\<rparr>) = Inr s'
           \<and> type2Pending FSM_TYPE2_ROTATED v trk sec buf d s'"
  using assms(1,3) read_masks [OF assms(2)]
  by (simp add: executeUntil_def type2Loaded_def schedule_def setSyncPoint_def
      pendingSyncPoint_def type2Pending_def onlyFSMPending_def Let_def)

lemma length_storeBuffer: "length (storeBuffer bytes buf) = length buf"
  by (simp add: storeBuffer_def)

lemma read_rotated_callback:
  assumes "type2Pending FSM_TYPE2_ROTATED v trk sec buf d s" and "v AND 0xF0 = 0x80"
    and "syncPoints s = [(t, SCHED_FSM)]"
    and "drive_read D sec d = Inr (d', bytes, trk, sc, sd, 512)"
    and "512 \<le> length buf"
  shows "\<exists>s'. executeUntil D t SCHED_FSM (s\<lparr>syncPoints := []\<rparr>) = Inr s'
           \<and> reading 0 512 s' \<and> dataBuffer s' = storeBuffer bytes buf \<and> syncPoints s' = []"
  using assms(1,2,3,4,5) read_masks [OF assms(2)]
  by (simp add: executeUntil_def type2Rotated_def tryToReadSector_def
      type2Pending_def reading_def length_storeBuffer Let_def)

lemma settle_read:
  assumes p: "type2Pending FSM_TYPE2_WAIT_LOAD v trk sec buf d s1
              \<or> type2Pending FSM_TYPE2_LOADED v trk sec buf d s1"
    and v: "v AND 0xF0 = 0x80"
    and rd: "drive_read D sec d = Inr (d', bytes, trk, sc, sd, 512)"
    and len: "512 \<le> length buf"
  shows "\<exists>s'. settle D 3 s1 = Inr s' \<and> reading 0 512 s' \<and> dataBuffer s' = storeBuffer bytes buf"
proof -
  have loaded: "\<exists>s'. settle D (Suc (Suc n)) s2 = Inr s' \<and> reading 0 512 s'
                  \<and> dataBuffer s' = storeBuffer bytes buf"
    if p2: "type2Pending FSM_TYPE2_LOADED v trk sec buf d s2" for s2 n
  proof -
    from type2Pending_single [OF p2] obtain t2 where sp2: "syncPoints s2 = [(t2, SCHED_FSM)]" ..
    from read_loaded_callback [OF p2 v sp2, of D]
    obtain s3 where e2: "executeUntil D t2 SCHED_FSM (s2\<lparr>syncPoints := []\<rparr>) = Inr s3"
      and p3: "type2Pending FSM_TYPE2_ROTATED v trk sec buf d s3" by blast
    from type2Pending_single [OF p3] obtain t3 where sp3: "syncPoints s3 = [(t3, SCHED_FSM)]" ..
    from read_rotated_callback [OF p3 v sp3 rd len]
    obtain s4 where e3: "executeUntil D t3 SCHED_FSM (s3\<lparr>syncPoints := []\<rparr>) = Inr s4"
      and r: "reading 0 512 s4" "dataBuffer s4 = storeBuffer bytes buf" "syncPoints s4 = []"
      by blast
    have "settle D (Suc (Suc n)) s2 = settle D (Suc n) s3"
      by (simp only: settle_single [OF sp2] e2 bindE_Inr)
    also have "\<dots> = settle D n s4"
      by (simp only: settle_single [OF sp3] e3 bindE_Inr)
    also have "\<dots> = Inr s4" using r(3) by (rule settle_empty)
    finally show ?thesis using r by blast
  qed
  from p show ?thesis
  proof
    assume p1: "type2Pending FSM_TYPE2_WAIT_LOAD v trk sec buf d s1"
    from type2Pending_single [OF p1] obtain t1 where sp1: "syncPoints s1 = [(t1, SCHED_FSM)]" ..
    from v have vc: "v AND 0xC0 = 0x80" by (rule read_masks)
    from type2_wait_load_callback [OF p1 vc sp1, of D]
    obtain s2 where e1: "executeUntil D t1 SCHED_FSM (s1\<lparr>syncPoints := []\<rparr>) = Inr s2"
      and p2: "type2Pending FSM_TYPE2_LOADED v trk sec buf d s2" by blast
    have "settle D 3 s1 = settle D (Suc (Suc 0)) s2"
      by (simp only: numeral_3_eq_3 settle_single [OF sp1] e1 bindE_Inr)
    with loaded [OF p2, of 0] show ?thesis by simp
  next
    assume p2: "type2Pending FSM_TYPE2_LOADED v trk sec buf d s1"
    from loaded [OF p2, of "Suc 0"] show ?thesis by (simp only: numeral_3_eq_3)
  qed
qed

lemma take_storeBuffer:
  "length bytes \<le> length buf \<Longrightarrow> take (length bytes) (storeBuffer bytes buf) = bytes"
  by (simp add: storeBuffer_def)

text \<open>
  C1: a single-sector Read Sector command (opcode 0x8X) is written at time \<open>t\<close> to a
  controller with no index-pulse interrupt armed and a disk in the drive; the
  scheduled head-load and rotation delays elapse; the backend delivers 512 bytes with
  the track of the track register. Then 512 reads of the data register, at any times,
  return those 512 bytes in order, and after the last one BUSY is clear and the
  interrupt is pending.
\<close>

theorem read_sector_returns_sector_bytes:
  assumes v: "v AND 0xF0 = 0x80"
    and sp: "onlyFSMPending s"
    and ins: "drive_isDiskInserted D (drive s)"
    and rd: "drive_read D (sectorReg s) (drive_setHeadLoaded D True t (drive s))
               = Inr (d', bytes, trackReg s, sc, sd, 512)"
    and lb: "length bytes = 512"
    and len: "512 \<le> length (dataBuffer s)"
    and lts: "length ts = 512"
  shows "\<exists>s'. bindE (bindE (setCommandReg D v t s) (settle D 3)) (getDataRegs D ts)
                = Inr (bytes, s')
           \<and> statusReg s' AND BUSY = 0 \<and> INTRQ s'"
proof -
  from read_dispatch [OF v sp ins, of t]
  obtain s1 where d: "setCommandReg D v t s = Inr s1"
    and p: "type2Pending FSM_TYPE2_WAIT_LOAD v (trackReg s) (sectorReg s) (dataBuffer s)
              (drive_setHeadLoaded D True t (drive s)) s1
            \<or> type2Pending FSM_TYPE2_LOADED v (trackReg s) (sectorReg s) (dataBuffer s)
              (drive_setHeadLoaded D True t (drive s)) s1"
    by blast
  from settle_read [OF p v rd len]
  obtain s2 where st: "settle D 3 s1 = Inr s2" and r: "reading 0 512 s2"
    and b: "dataBuffer s2 = storeBuffer bytes (dataBuffer s)" by blast
  have r': "reading 0 (Suc 511) s2" using r by simp
  have lts': "length ts = Suc 511" using lts by simp
  from getDataRegs_reading [OF r' lts', of D]
  obtain s' where g: "getDataRegs D ts s2 = Inr (take (Suc 511) (drop 0 (dataBuffer s2)), s')"
    and e: "statusReg s' AND BUSY = 0" "INTRQ s'" by blast
  have "take (Suc 511) (drop 0 (dataBuffer s2)) = take (length bytes) (storeBuffer bytes (dataBuffer s))"
    using b lb by simp
  also have "\<dots> = bytes" using lb len by (intro take_storeBuffer) simp
  finally have "getDataRegs D ts s2 = Inr (bytes, s')" using g by simp
  with d st e show ?thesis by simp
qed

theorem read_sector_returns_sector_bytes_witness:
  "(0x80 :: byte) AND 0xF0 = 0x80
   \<and> onlyFSMPending poweredOn
   \<and> drive_isDiskInserted (exampleDrive False 0) (drive poweredOn)
   \<and> drive_read (exampleDrive False 0) (sectorReg poweredOn)
        (drive_setHeadLoaded (exampleDrive False 0) True 10 (drive poweredOn))
        = Inr (0, map of_nat [0..<512], trackReg poweredOn, 1, 0, 512)
   \<and> length (map of_nat [0..<512] :: byte list) = 512
   \<and> 512 \<le> length (dataBuffer poweredOn)
   \<and> length (replicate 512 (20 :: nat)) = 512
   \<and> (\<exists>s'. bindE (bindE (setCommandReg (exampleDrive False 0) 0x80 10 poweredOn)
                   (settle (exampleDrive False 0) 3))
              (getDataRegs (exampleDrive False 0) (replicate 512 20))
              = Inr (map of_nat [0..<512], s')
           \<and> statusReg s' AND BUSY = 0 \<and> INTRQ s')"
proof -
  have h1: "(0x80 :: byte) AND 0xF0 = 0x80" by simp
  have h2: "onlyFSMPending poweredOn" by (simp add: onlyFSMPending_def poweredOn_eq)
  have h3: "drive_isDiskInserted (exampleDrive False 0) (drive poweredOn)"
    by (simp add: exampleDrive_def)
  have h4: "drive_read (exampleDrive False 0) (sectorReg poweredOn)
        (drive_setHeadLoaded (exampleDrive False 0) True 10 (drive poweredOn))
        = Inr (0, map of_nat [0..<512], trackReg poweredOn, 1, 0, 512)"
    by (simp add: exampleDrive_def poweredOn_eq del: upt_rec_numeral)
  have h5: "length (map of_nat [0..<512] :: byte list) = 512" by simp
  have h6: "512 \<le> length (dataBuffer poweredOn)" by (simp add: poweredOn_eq)
  have h7: "length (replicate 512 (20 :: nat)) = 512" by simp
  from read_sector_returns_sector_bytes [OF h1 h2 h3 h4 h5 h6 h7] h1 h2 h3 h4 h5 h6 h7
  show ?thesis by blast
qed

subsection \<open>Write Sector\<close>

lemma write_masks:
  assumes "(v :: byte) AND 0xF0 = 0xA0 \<or> v AND 0xF0 = 0xB0"
  shows "v AND 0xE0 = 0xA0" and "v AND 0xC0 = 0x80"
  using assms sub_mask [of "0xE0" v] sub_mask [of "0xC0" v]
  by auto

lemma type2_dispatch:
  assumes "v AND 0xF0 \<in> {0x80, 0x90, 0xA0, 0xB0}" and "onlyFSMPending s"
    and "drive_isDiskInserted D (drive s)"
  shows "\<exists>s1. setCommandReg D v t s = Inr s1
           \<and> (type2Pending FSM_TYPE2_WAIT_LOAD v (trackReg s) (sectorReg s) (dataBuffer s)
                 (drive_setHeadLoaded D True t (drive s)) s1
              \<or> type2Pending FSM_TYPE2_LOADED v (trackReg s) (sectorReg s) (dataBuffer s)
                 (drive_setHeadLoaded D True t (drive s)) s1)"
  using assms(1,3) removeTag_onlyFSM [OF assms(2)]
  by (auto simp add: setCommandReg_def startType2Cmd_def type2WaitLoad_def resetIRQ_def setDRQ_def
      removeSyncPoint_def schedule_def setSyncPoint_def pendingSyncPoint_def
      type2Pending_def onlyFSMPending_def Let_def bit_tests)

lemma write_loaded_callback:
  assumes "type2Pending FSM_TYPE2_LOADED v trk sec buf d s"
    and "v AND 0xF0 = 0xA0 \<or> v AND 0xF0 = 0xB0"
    and "syncPoints s = [(t, SCHED_FSM)]"
    and "\<not> drive_isWriteProtected D d"
  shows "\<exists>s'. executeUntil D t SCHED_FSM (s\<lparr>syncPoints := []\<rparr>) = Inr s'
           \<and> type2Pending FSM_TYPE2_ROTATED v trk sec buf d s'"
  using assms(1,3,4) write_masks [OF assms(2)]
  by (simp add: executeUntil_def type2Loaded_def schedule_def setSyncPoint_def
      pendingSyncPoint_def type2Pending_def onlyFSMPending_def Let_def)

lemma write_rotated_callback:
  assumes "type2Pending FSM_TYPE2_ROTATED v trk sec buf d s"
    and "v AND 0xF0 = 0xA0 \<or> v AND 0xF0 = 0xB0"
    and "syncPoints s = [(t, SCHED_FSM)]"
    and "512 \<le> length buf"
  shows "\<exists>s'. executeUntil D t SCHED_FSM (s\<lparr>syncPoints := []\<rparr>) = Inr s'
           \<and> writing 0 512 trk sec d s' \<and> dataBuffer s' = buf \<and> syncPoints s' = []"
  using assms(1,3,4) write_masks [OF assms(2)] assms(2)
  by (auto simp add: executeUntil_def type2Rotated_def type2Pending_def writing_def Let_def)

lemma settle_write:
  assumes p: "type2Pending FSM_TYPE2_WAIT_LOAD v trk sec buf d s1
              \<or> type2Pending FSM_TYPE2_LOADED v trk sec buf d s1"
    and v: "v AND 0xF0 = 0xA0 \<or> v AND 0xF0 = 0xB0"
    and wp: "\<not> drive_isWriteProtected D d"
    and len: "512 \<le> length buf"
  shows "\<exists>s'. settle D 3 s1 = Inr s' \<and> writing 0 512 trk sec d s' \<and> dataBuffer s' = buf"
proof -
  have loaded: "\<exists>s'. settle D (Suc (Suc n)) s2 = Inr s' \<and> writing 0 512 trk sec d s'
                  \<and> dataBuffer s' = buf"
    if p2: "type2Pending FSM_TYPE2_LOADED v trk sec buf d s2" for s2 n
  proof -
    from type2Pending_single [OF p2] obtain t2 where sp2: "syncPoints s2 = [(t2, SCHED_FSM)]" ..
    from write_loaded_callback [OF p2 v sp2 wp]
    obtain s3 where e2: "executeUntil D t2 SCHED_FSM (s2\<lparr>syncPoints := []\<rparr>) = Inr s3"
      and p3: "type2Pending FSM_TYPE2_ROTATED v trk sec buf d s3" by blast
    from type2Pending_single [OF p3] obtain t3 where sp3: "syncPoints s3 = [(t3, SCHED_FSM)]" ..
    from write_rotated_callback [OF p3 v sp3 len, of D]
    obtain s4 where e3: "executeUntil D t3 SCHED_FSM (s3\<lparr>syncPoints := []\<rparr>) = Inr s4"
      and r: "writing 0 512 trk sec d s4" "dataBuffer s4 = buf" "syncPoints s4 = []"
      by blast
    have "settle D (Suc (Suc n)) s2 = settle D (Suc n) s3"
      by (simp only: settle_single [OF sp2] e2 bindE_Inr)
    also have "\<dots> = settle D n s4"
      by (simp only: settle_single [OF sp3] e3 bindE_Inr)
    also have "\<dots> = Inr s4" using r(3) by (rule settle_empty)
    finally show ?thesis using r by blast
  qed
  from p show ?thesis
  proof
    assume p1: "type2Pending FSM_TYPE2_WAIT_LOAD v trk sec buf d s1"
    from type2Pending_single [OF p1] obtain t1 where sp1: "syncPoints s1 = [(t1, SCHED_FSM)]" ..
    from v have vc: "v AND 0xC0 = 0x80" by (rule write_masks)
    from type2_wait_load_callback [OF p1 vc sp1, of D]
    obtain s2 where e1: "executeUntil D t1 SCHED_FSM (s1\<lparr>syncPoints := []\<rparr>) = Inr s2"
      and p2: "type2Pending FSM_TYPE2_LOADED v trk sec buf d s2" by blast
    have "settle D 3 s1 = settle D (Suc (Suc 0)) s2"
      by (simp only: numeral_3_eq_3 settle_single [OF sp1] e1 bindE_Inr)
    with loaded [OF p2, of 0] show ?thesis by simp
  next
    assume p2: "type2Pending FSM_TYPE2_LOADED v trk sec buf d s1"
    from loaded [OF p2, of "Suc 0"] show ?thesis by (simp only: numeral_3_eq_3)
  qed
qed

lemma setDataReg_more:
  assumes "writing c (Suc (Suc n)) trk sec d s"
  shows "\<exists>s'. setDataReg D b t s = Inr s' \<and> writing (Suc c) (Suc n) trk sec d s'
           \<and> dataBuffer s' = (dataBuffer s)[c := b]"
  using assms
  by (simp add: writing_def setDataReg_def inBuffer_def setDRQ_def Let_def)

lemma setDataReg_last_mismatch:
  assumes "writing c (Suc 0) trk sec d s"
    and "drive_write D sec ((dataBuffer s)[c := b]) d = Inr (d', trk', sc, sd, sz)"
    and "trk' \<noteq> trk"
  shows "\<exists>s'. setDataReg D b t s = Inr s' \<and> statusReg s' AND RECORD_NOT_FOUND \<noteq> 0
           \<and> statusReg s' AND BUSY = 0 \<and> INTRQ s' \<and> \<not> transferring s'"
  using assms
  by (simp add: writing_def setDataReg_def inBuffer_def setDRQ_def endCmd_def setIRQ_def
      Let_def bit_tests)

lemma fillFrom_Cons:
  "c < length buf \<Longrightarrow> fillFrom (Suc c) bs (buf[c := b]) = fillFrom c (b # bs) buf"
  by (simp add: fillFrom_def take_Suc_conv_app_nth)

lemma fillFrom_single: "c < length buf \<Longrightarrow> fillFrom c [b] buf = buf[c := b]"
  by (simp add: fillFrom_def upd_conv_take_nth_drop)

lemma setDataRegs_Nil: "setDataRegs D [] = Inr"
  by (rule ext) simp

lemma setDataRegs_mismatch:
  "writing c (Suc n) trk sec d s \<Longrightarrow> length ws = Suc n \<Longrightarrow>
   drive_write D sec (fillFrom c (map fst ws) (dataBuffer s)) d = Inr (d', trk', sc, sd, sz) \<Longrightarrow>
   trk' \<noteq> trk \<Longrightarrow>
   \<exists>s'. setDataRegs D ws s = Inr s' \<and> statusReg s' AND RECORD_NOT_FOUND \<noteq> 0
         \<and> statusReg s' AND BUSY = 0 \<and> INTRQ s' \<and> \<not> transferring s'"
proof (induction n arbitrary: c s ws)
  case 0
  then obtain w where ws: "ws = [w]" by (cases ws) simp_all
  from 0 have lt: "c < length (dataBuffer s)" by (simp add: writing_def)
  from 0(3) ws lt have "drive_write D sec ((dataBuffer s)[c := fst w]) d = Inr (d', trk', sc, sd, sz)"
    by (simp add: fillFrom_single)
  from setDataReg_last_mismatch [OF 0(1) this 0(4), of "snd w"] ws show ?case
    by (auto simp add: setDataRegs_Nil)
next
  case (Suc n)
  then obtain w ws' where ws: "ws = w # ws'" and len: "length ws' = Suc n"
    by (cases ws) simp_all
  from Suc.prems have lt: "c < length (dataBuffer s)" by (simp add: writing_def)
  from setDataReg_more [OF Suc.prems(1), of D "fst w" "snd w"]
  obtain s1 where g: "setDataReg D (fst w) (snd w) s = Inr s1"
    and r: "writing (Suc c) (Suc n) trk sec d s1"
    and b: "dataBuffer s1 = (dataBuffer s)[c := fst w]" by blast
  from Suc.prems(3) ws lt b
  have "drive_write D sec (fillFrom (Suc c) (map fst ws') (dataBuffer s1)) d
          = Inr (d', trk', sc, sd, sz)"
    by (simp add: fillFrom_Cons)
  from Suc.IH [OF r len this Suc.prems(4)] g ws show ?case by simp
qed

lemma fillFrom_0: "length bytes \<le> length buf \<Longrightarrow> fillFrom 0 bytes buf = storeBuffer bytes buf"
  by (simp add: fillFrom_def storeBuffer_def)

text \<open>
  C6: a Write Sector command (opcode 0xAX or 0xBX) is written at time \<open>t\<close> to a
  controller with no index-pulse interrupt armed, a disk in the drive and no write
  protection; the scheduled delays elapse and 512 bytes are written to the data
  register. If the backend's write call, made after the 512th byte, reports a track
  other than the track register, the command ends there: record-not-found (0x10) is
  set, BUSY is clear, the interrupt is raised and no transfer is active, whatever
  size the backend reports.
\<close>

theorem write_sector_track_mismatch:
  assumes v: "v AND 0xF0 = 0xA0 \<or> v AND 0xF0 = 0xB0"
    and sp: "onlyFSMPending s"
    and ins: "drive_isDiskInserted D (drive s)"
    and wp: "\<not> drive_isWriteProtected D (drive_setHeadLoaded D True t (drive s))"
    and wr: "drive_write D (sectorReg s) (storeBuffer (map fst ws) (dataBuffer s))
               (drive_setHeadLoaded D True t (drive s)) = Inr (d', trk', sc, sd, sz)"
    and mis: "trk' \<noteq> trackReg s"
    and len: "512 \<le> length (dataBuffer s)"
    and lws: "length ws = 512"
  shows "\<exists>s'. bindE (bindE (setCommandReg D v t s) (settle D 3)) (setDataRegs D ws) = Inr s'
           \<and> statusReg s' AND RECORD_NOT_FOUND \<noteq> 0
           \<and> statusReg s' AND BUSY = 0 \<and> INTRQ s' \<and> \<not> transferring s'"
proof -
  from v have v': "v AND 0xF0 \<in> {0x80, 0x90, 0xA0, 0xB0}" by auto
  from type2_dispatch [OF v' sp ins, of t]
  obtain s1 where d: "setCommandReg D v t s = Inr s1"
    and p: "type2Pending FSM_TYPE2_WAIT_LOAD v (trackReg s) (sectorReg s) (dataBuffer s)
              (drive_setHeadLoaded D True t (drive s)) s1
            \<or> type2Pending FSM_TYPE2_LOADED v (trackReg s) (sectorReg s) (dataBuffer s)
              (drive_setHeadLoaded D True t (drive s)) s1"
    by blast
  from settle_write [OF p v wp len]
  obtain s2 where st: "settle D 3 s1 = Inr s2"
    and w: "writing 0 512 (trackReg s) (sectorReg s) (drive_setHeadLoaded D True t (drive s)) s2"
    and b: "dataBuffer s2 = dataBuffer s" by blast
  have w': "writing 0 (Suc 511) (trackReg s) (sectorReg s)
              (drive_setHeadLoaded D True t (drive s)) s2"
    using w by simp
  have lws': "length ws = Suc 511" using lws by simp
  have "fillFrom 0 (map fst ws) (dataBuffer s2) = storeBuffer (map fst ws) (dataBuffer s)"
    using b lws len by (simp add: fillFrom_0)
  with wr have wr': "drive_write D (sectorReg s) (fillFrom 0 (map fst ws) (dataBuffer s2))
               (drive_setHeadLoaded D True t (drive s)) = Inr (d', trk', sc, sd, sz)"
    by simp
  from setDataRegs_mismatch [OF w' lws' wr' mis] d st show ?thesis by simp
qed

theorem write_sector_track_mismatch_witness:
  "((0xA0 :: byte) AND 0xF0 = 0xA0 \<or> (0xA0 :: byte) AND 0xF0 = 0xB0)
   \<and> onlyFSMPending poweredOn
   \<and> drive_isDiskInserted (exampleDrive False 7) (drive poweredOn)
   \<and> \<not> drive_isWriteProtected (exampleDrive False 7)
         (drive_setHeadLoaded (exampleDrive False 7) True 10 (drive poweredOn))
   \<and> drive_write (exampleDrive False 7) (sectorReg poweredOn)
        (storeBuffer (map fst (replicate 512 (0xE5 :: byte, 30 :: nat))) (dataBuffer poweredOn))
        (drive_setHeadLoaded (exampleDrive False 7) True 10 (drive poweredOn))
        = Inr (0, 7, 1, 0, 512)
   \<and> (7 :: byte) \<noteq> trackReg poweredOn
   \<and> 512 \<le> length (dataBuffer poweredOn)
   \<and> length (replicate 512 (0xE5 :: byte, 30 :: nat)) = 512
   \<and> (\<exists>s'. bindE (bindE (setCommandReg (exampleDrive False 7) 0xA0 10 poweredOn)
                   (settle (exampleDrive False 7) 3))
              (setDataRegs (exampleDrive False 7) (replicate 512 (0xE5, 30))) = Inr s'
           \<and> statusReg s' AND RECORD_NOT_FOUND \<noteq> 0
           \<and> statusReg s' AND BUSY = 0 \<and> INTRQ s' \<and> \<not> transferring s')"
proof -
  have h1: "(0xA0 :: byte) AND 0xF0 = 0xA0 \<or> (0xA0 :: byte) AND 0xF0 = 0xB0" by simp
  have h2: "onlyFSMPending poweredOn" by (simp add: onlyFSMPending_def poweredOn_eq)
  have h3: "drive_isDiskInserted (exampleDrive False 7) (drive poweredOn)"
    by (simp add: exampleDrive_def)
  have h4: "\<not> drive_isWriteProtected (exampleDrive False 7)
         (drive_setHeadLoaded (exampleDrive False 7) True 10 (drive poweredOn))"
    by (simp add: exampleDrive_def)
  have h5: "drive_write (exampleDrive False 7) (sectorReg poweredOn)
        (storeBuffer (map fst (replicate 512 (0xE5 :: byte, 30 :: nat))) (dataBuffer poweredOn))
        (drive_setHeadLoaded (exampleDrive False 7) True 10 (drive poweredOn))
        = Inr (0, 7, 1, 0, 512)"
    by (simp add: exampleDrive_def poweredOn_eq)
  have h6: "(7 :: byte) \<noteq> trackReg poweredOn" by (simp add: poweredOn_eq)
  have h7: "512 \<le> length (dataBuffer poweredOn)" by (simp add: poweredOn_eq)
  have h8: "length (replicate 512 (0xE5 :: byte, 30 :: nat)) = 512" by simp
  from write_sector_track_mismatch [OF h1 h2 h3 h4 h5 h6 h7 h8] h1 h2 h3 h4 h5 h6 h7 h8
  show ?thesis by blast
qed

subsection \<open>Force Interrupt\<close>

lemma startType4Cmd_not_busy:
  "startType4Cmd D t s = Inr r \<Longrightarrow> statusReg r AND BUSY = 0 \<and> INTRQ r = INTRQ s"
  unfolding startType4Cmd_def Let_def
  by (auto simp add: setDRQ_def setSyncPoint_def removeSyncPoint_def bit_tests
      split: if_splits)

text \<open>Whenever the dispatch of a Force Interrupt returns, BUSY is clear.\<close>

lemma force_interrupt_not_busy:
  assumes "v AND 0xF0 = 0xD0" and "setCommandReg D v t s = Inr r"
  shows "statusReg r AND BUSY = 0 \<and> \<not> INTRQ r"
proof -
  from assms have "startType4Cmd D t
      ((resetIRQ ((removeSyncPoint SCHED_FSM s)\<lparr>commandReg := v\<rparr>))\<lparr>transferring := False\<rparr>) = Inr r"
    by (simp add: setCommandReg_def Let_def resetIRQ_def removeSyncPoint_def)
  from startType4Cmd_not_busy [OF this] show ?thesis by (simp add: resetIRQ_def)
qed

lemma set_removeTag: "set (removeTag tag ps) \<subseteq> set ps"
  by (induction ps) auto

lemma removeTag_absent:
  "distinct (map snd ps) \<Longrightarrow> tag \<notin> snd ` set (removeTag tag ps)"
  by (induction ps) (auto dest: subsetD [OF set_removeTag])

lemma removeTag_both:
  assumes "distinct (map snd ps)"
  shows "removeTag SCHED_IDX_IRQ (removeTag SCHED_FSM ps) = []"
proof (rule ccontr)
  assume "removeTag SCHED_IDX_IRQ (removeTag SCHED_FSM ps) \<noteq> []"
  then obtain p where p: "p \<in> set (removeTag SCHED_IDX_IRQ (removeTag SCHED_FSM ps))"
    by (cases "removeTag SCHED_IDX_IRQ (removeTag SCHED_FSM ps)") auto
  have d: "distinct (map snd (removeTag SCHED_FSM ps))"
    using assms by (induction ps) (auto dest: subsetD [OF set_removeTag])
  from p have "p \<in> set (removeTag SCHED_FSM ps)" using set_removeTag by blast
  then have "snd p \<noteq> SCHED_FSM" using removeTag_absent [OF assms, of SCHED_FSM] by force
  moreover from p have "snd p \<noteq> SCHED_IDX_IRQ"
    using removeTag_absent [OF d, of SCHED_IDX_IRQ] by force
  ultimately show False by (cases "snd p") auto
qed

text \<open>
  A Force Interrupt with the immediate-interrupt flag and without the index-pulse flag
  (0xD8 to 0xDB), written in any state with at most one SyncPoint pending per tag,
  leaves no SyncPoint pending, clears BUSY and sets the immediate interrupt.
\<close>

lemma force_interrupt_cancels:
  assumes v: "v AND 0xF0 = 0xD0" and imm: "v AND IMM_IRQ \<noteq> 0" and idx: "v AND IDX_IRQ = 0"
    and d: "distinct (map snd (syncPoints s))"
  shows "\<exists>r. setCommandReg D v t s = Inr r \<and> syncPoints r = []
           \<and> statusReg r AND BUSY = 0 \<and> immediateIRQ r"
  using removeTag_both [OF d] v imm idx
  by (auto simp add: setCommandReg_def startType4Cmd_def resetIRQ_def removeSyncPoint_def
      setDRQ_def Let_def bit_tests)

lemma armed_seeking_run:
  "bindE (setCommandReg (exampleDrive False 0) 0xD4 10 (poweredOn\<lparr>drive := 3\<rparr>))
     (setCommandReg (exampleDrive False 0) 0x03 50) =
   Inr \<lparr>drive = 2, commandStart = 0, DRQTimer = 50, fsmState = FSM_SEEK,
        statusReg = 0x01, commandReg = 0x03, sectorReg = 0x01, trackReg = 0xFE, dataReg = 0,
        directionIn = False, INTRQ = False, immediateIRQ = False, DRQ = False,
        transferring = False, formatting = False,
        dataBuffer = replicate 6250 0, dataCurrent = 0, dataAvailable = 0,
        syncPoints = [(30050, SCHED_FSM), (200000, SCHED_IDX_IRQ)]\<rparr>"
  by (simp add: poweredOn_eq wd2793_defs)

text \<open>
  C8, at a failing input: a Restore is between two steps (Type I command, BUSY, its
  next step scheduled) and an index-pulse interrupt is armed. A Force Interrupt with
  the immediate-interrupt and index-pulse flags (0xDC) written at time 60 registers
  \<open>SCHED_IDX_IRQ\<close> a second time, which the scheduler refuses as a contract
  violation: the command does not return with BUSY cleared.
\<close>

theorem force_interrupt_mid_step_violates_contract:
  "bindE (setCommandReg (exampleDrive False 0) 0xD4 10 (poweredOn\<lparr>drive := 3\<rparr>))
     (setCommandReg (exampleDrive False 0) 0x03 50) = Inr armedSeekingState
   \<and> commandReg armedSeekingState AND 0x80 = 0x00
   \<and> statusReg armedSeekingState AND BUSY = 0x01
   \<and> fsmState armedSeekingState = FSM_SEEK
   \<and> syncPoints armedSeekingState = [(30050, SCHED_FSM), (200000, SCHED_IDX_IRQ)]
   \<and> (0xDC :: byte) AND 0xF0 = 0xD0
   \<and> (0xDC :: byte) AND IMM_IRQ = 0x08
   \<and> setCommandReg (exampleDrive False 0) 0xDC 60 armedSeekingState = Inl ContractViolation"
  unfolding armedSeekingState_def armed_seeking_run
  by (simp add: wd2793_defs)

subsection \<open>Media faults\<close>

lemma faulted_read_run:
  "bindE (setCommandReg (exampleDrive True 0) 0x80 10 poweredOn)
     (settle (exampleDrive True 0) 3) =
   Inr \<lparr>drive = 0, commandStart = 0, DRQTimer = 10, fsmState = FSM_NONE,
        statusReg = 0x00, commandReg = 0x80, sectorReg = 0x01, trackReg = 0, dataReg = 0,
        directionIn = False, INTRQ = False, immediateIRQ = False, DRQ = False,
        transferring = False, formatting = False,
        dataBuffer = replicate 6250 0,
        dataCurrent = 0, dataAvailable = 0, syncPoints = []\<rparr>"
  by (simp add: poweredOn_eq wd2793_defs del: upt_rec_numeral)

text \<open>
  C5, as stated, fails when \<open>drive.read\<close> throws: the Read Sector command on the
  faulting backend ends with the whole status register 0x00, so no error bit is set,
  and with no interrupt raised.
\<close>

theorem read_fault_sets_no_error_bit:
  "drive_read (exampleDrive True 0) 0x01 0 = Inl MSXException
   \<and> bindE (setCommandReg (exampleDrive True 0) 0x80 10 poweredOn)
        (settle (exampleDrive True 0) 3) = Inr faultedRead
   \<and> statusReg faultedRead = 0x00
   \<and> \<not> getIRQ 2010 faultedRead"
  unfolding faultedRead_def faulted_read_run
  by (simp add: getIRQ_def exampleDrive_def)

lemma read_fault_caught:
  assumes "drive_read D (sectorReg s) (drive s) = Inl e"
  shows "\<exists>r. tryToReadSector D s = Inr r \<and> statusReg r AND BUSY = 0"
  using assms by (simp add: tryToReadSector_def)

lemma write_fault_caught:
  assumes "commandReg s AND 0xE0 = 0xA0" and "statusReg s AND BUSY \<noteq> 0" and "inBuffer s"
    and "dataAvailable s = 1"
    and "drive_write D (sectorReg s) ((dataBuffer s)[nat (dataCurrent s) := b]) (drive s) = Inl e"
  shows "\<exists>r. setDataReg D b t s = Inr r \<and> statusReg r AND RECORD_NOT_FOUND \<noteq> 0
           \<and> statusReg r AND BUSY = 0 \<and> INTRQ r"
  using assms
  by (simp add: setDataReg_def inBuffer_def setDRQ_def endCmd_def setIRQ_def Let_def bit_tests)

lemma writeTrack_fault_ignored:
  assumes "drive_writeTrackData D (dataBuffer s) (drive s) = Inl e"
  shows "statusReg (endWriteTrackCmd D s) = statusReg s AND NOT BUSY \<and> INTRQ (endWriteTrackCmd D s)"
  using assms by (simp add: endWriteTrackCmd_def endCmd_def setIRQ_def Let_def)

text \<open>
  C5, amended: every backend media fault is caught where the backend is called and
  the controller method returns normally with BUSY clear. A fault of \<open>drive.write\<close>
  (at the last byte of a Write Sector) sets record-not-found and raises the
  interrupt. A fault of \<open>drive.writeTrackData\<close> is ignored: the command ends with
  the interrupt raised and no error bit added to the status register. For a fault of
  \<open>drive.read\<close> only the normal return with BUSY clear is stated.
\<close>

theorem media_fault_is_caught:
  "(drive_read D (sectorReg s1) (drive s1) = Inl e1
      \<longrightarrow> (\<exists>r. tryToReadSector D s1 = Inr r \<and> statusReg r AND BUSY = 0))
   \<and> (commandReg s2 AND 0xE0 = 0xA0 \<and> statusReg s2 AND BUSY \<noteq> 0 \<and> inBuffer s2
       \<and> dataAvailable s2 = 1
       \<and> drive_write D (sectorReg s2) ((dataBuffer s2)[nat (dataCurrent s2) := b]) (drive s2) = Inl e2
      \<longrightarrow> (\<exists>r. setDataReg D b t s2 = Inr r \<and> statusReg r AND RECORD_NOT_FOUND \<noteq> 0
             \<and> statusReg r AND BUSY = 0 \<and> INTRQ r))
   \<and> (drive_writeTrackData D (dataBuffer s3) (drive s3) = Inl e3
      \<longrightarrow> statusReg (endWriteTrackCmd D s3) = statusReg s3 AND NOT BUSY
          \<and> INTRQ (endWriteTrackCmd D s3))"
  using read_fault_caught [of D s1 e1] write_fault_caught [of s2 D b e2 t]
    writeTrack_fault_ignored [of D s3 e3]
  by blast

theorem media_fault_is_caught_witness:
  "(drive_read (exampleDrive True 0) (sectorReg poweredOn) (drive poweredOn) = Inl MSXException
      \<and> (\<exists>r. tryToReadSector (exampleDrive True 0) poweredOn = Inr r \<and> statusReg r AND BUSY = 0))
   \<and> (commandReg lastByteState AND 0xE0 = 0xA0 \<and> statusReg lastByteState AND BUSY \<noteq> 0
       \<and> inBuffer lastByteState \<and> dataAvailable lastByteState = 1
       \<and> drive_write (exampleDrive True 0) (sectorReg lastByteState)
            ((dataBuffer lastByteState)[nat (dataCurrent lastByteState) := 0xE5])
            (drive lastByteState) = Inl MSXException
       \<and> (\<exists>r. setDataReg (exampleDrive True 0) 0xE5 70 lastByteState = Inr r
             \<and> statusReg r AND RECORD_NOT_FOUND \<noteq> 0
             \<and> statusReg r AND BUSY = 0 \<and> INTRQ r))
   \<and> (drive_writeTrackData (exampleDrive True 0) (dataBuffer formattingState)
         (drive formattingState) = Inl MSXException
       \<and> statusReg (endWriteTrackCmd (exampleDrive True 0) formattingState)
           = statusReg formattingState AND NOT BUSY
       \<and> INTRQ (endWriteTrackCmd (exampleDrive True 0) formattingState))"
proof -
  have h1: "drive_read (exampleDrive True 0) (sectorReg poweredOn) (drive poweredOn)
              = Inl MSXException"
    by (simp add: exampleDrive_def)
  have h2: "commandReg lastByteState AND 0xE0 = 0xA0 \<and> statusReg lastByteState AND BUSY \<noteq> 0
       \<and> inBuffer lastByteState \<and> dataAvailable lastByteState = 1
       \<and> drive_write (exampleDrive True 0) (sectorReg lastByteState)
            ((dataBuffer lastByteState)[nat (dataCurrent lastByteState) := 0xE5])
            (drive lastByteState) = Inl MSXException"
    by (simp add: lastByteState_def poweredOn_eq inBuffer_def exampleDrive_def)
  have h3: "drive_writeTrackData (exampleDrive True 0) (dataBuffer formattingState)
         (drive formattingState) = Inl MSXException"
    by (simp add: exampleDrive_def)
  from media_fault_is_caught [of "exampleDrive True 0" poweredOn MSXException
      lastByteState "0xE5" MSXException 70 formattingState MSXException] h1 h2 h3
  show ?thesis by blast
qed

end
